theory Spec2Isabelle
  imports Main "HOL-Library.Word" "HOL-Library.Multiset" "HOL-Library.AList"
begin

unbundle bit_operations_syntax

section \<open>Fingerprint generator (package target)\<close>

subsection \<open>avoidOverflow\<close>

text \<open>
  \<^verbatim>\<open>
  func avoidOverflow(num uint64) uint64 {
      if num > math.MaxInt32 {
          return avoidOverflow(num / 50)
      }
      return num
  }
  \<close>
  The argument is a \<open>uint64\<close>, hence a 64-bit word; \<open>/\<close> on unsigned integers is
  \<open>div\<close> on words.
\<close>

definition MaxInt32 :: "64 word" where
  "MaxInt32 = 2147483647"

function avoidOverflow :: "64 word \<Rightarrow> 64 word" where
  "avoidOverflow num = (if num > MaxInt32 then avoidOverflow (num div 50) else num)"
  by pat_completeness auto
termination
proof (relation "measure unat")
  show "wf (measure (unat :: 64 word \<Rightarrow> nat))" by simp
next
  fix num :: "64 word"
  assume "MaxInt32 < num"
  then have "0 < unat num"
    by (simp add: MaxInt32_def word_less_nat_alt)
  then have "unat num div 50 < unat num" by simp
  then show "(num div 50, num) \<in> measure unat"
    by (simp add: unat_div)
qed

declare avoidOverflow.simps [simp del]

subsection \<open>The FNV-1a accumulator of hash/fnv\<close>

text \<open>
  \<^verbatim>\<open>fnv.New64a()\<close> starts from the 64-bit offset basis; \<^verbatim>\<open>Write\<close> folds every byte
  into the state with \<^verbatim>\<open>hash ^= uint64(c); hash *= prime64\<close> (multiplication wraps at 64
  bits); \<^verbatim>\<open>Sum64\<close> reads the state. A Go string is a byte sequence, hence a \<open>string\<close>
  (a list of 8-bit characters) here.
\<close>

definition offset64 :: "64 word" where
  "offset64 = 14695981039346656037"

definition prime64 :: "64 word" where
  "prime64 = 1099511628211"

definition New64a :: "64 word" where
  "New64a = offset64"

definition Write :: "64 word \<Rightarrow> string \<Rightarrow> 64 word" where
  "Write h data = foldl (\<lambda>hash c. (hash XOR of_char c) * prime64) h data"

definition Sum64 :: "64 word \<Rightarrow> 64 word" where
  "Sum64 h = h"

subsection \<open>Decimal rendering\<close>

text \<open>
  \<^verbatim>\<open>fmt.Sprintf("%d", n)\<close> and \<^verbatim>\<open>strconv.Itoa(n)\<close> render a Go \<open>int\<close> in decimal, with a
  leading minus sign for negative values. The values are taken as mathematical integers;
  nothing below does arithmetic on them.
\<close>

definition digit :: "nat \<Rightarrow> char" where
  "digit d = char_of (48 + d)"

fun decimal :: "nat \<Rightarrow> string" where
  "decimal n = (if n < 10 then [digit n] else decimal (n div 10) @ [digit (n mod 10)])"

declare decimal.simps [simp del]

definition Itoa :: "int \<Rightarrow> string" where
  "Itoa i = (if i < 0 then CHR ''-'' # decimal (nat (- i)) else decimal (nat i))"

subsection \<open>MetricTarget and generateTaskID\<close>

text \<open>
  The fields of \<^verbatim>\<open>define.MonitorMeta\<close>, \<^verbatim>\<open>labels.Label\<close> and \<^verbatim>\<open>MetricTarget\<close>. Field names
  that several structs share carry the struct's name as a prefix. The fields of
  \<^verbatim>\<open>MetricTarget\<close> with library types (\<^verbatim>\<open>TLSConfig\<close>, \<^verbatim>\<open>Params\<close>, \<^verbatim>\<open>MetricRelabelConfigs\<close>)
  live in the extension slot of the record: the theorems hold for every extension.
\<close>

record MonitorMeta =
  Meta_Name :: string
  Meta_Kind :: string
  Meta_Namespace :: string
  Meta_Index :: int

record Label =
  Label_Name :: string
  Label_Value :: string

record MetricTarget =
  Meta :: MonitorMeta
  RelabelRule :: string
  RelabelIndex :: string
  NormalizeMetricName :: bool
  Address :: string
  NodeName :: string
  Scheme :: string
  DataID :: int
  Namespace :: string
  MaxTimeout :: string
  MinPeriod :: string
  Period :: string
  Timeout :: string
  Path :: string
  ProxyURL :: string
  Username :: string
  Password :: string
  BearerTokenFile :: string
  BearerToken :: string
  Labels :: "Label list"
  ExtraLabels :: "(string \<times> string) list"
  DimensionReplace :: "(string \<times> string) list option"
  MetricReplace :: "(string \<times> string) list option"
  Mask :: string
  TaskType :: string
  DisableCustomTimestamp :: bool

text \<open>
  \<^verbatim>\<open>
  func (t *MetricTarget) generateTaskID() uint64 {
      h := fnv.New64a()
      h.Write([]byte(fmt.Sprintf("%d", t.DataID)))
      h.Write([]byte(t.Address))
      h.Write([]byte(t.Path))
      for _, label := range t.Labels {
          h.Write([]byte(label.Name))
          h.Write([]byte(label.Value))
      }
      h.Write([]byte(fmt.Sprintf("%d", t.Meta.Index)))
      h.Write([]byte(t.Namespace))
      h.Write([]byte(t.Meta.Name))
      return avoidOverflow(h.Sum64())
  }
  \<close>
\<close>

definition writeLabels :: "64 word \<Rightarrow> Label list \<Rightarrow> 64 word" where
  "writeLabels h ls = foldl (\<lambda>h0 label. Write (Write h0 (Label_Name label)) (Label_Value label)) h ls"

definition generateTaskID :: "'a MetricTarget_scheme \<Rightarrow> 64 word" where
  "generateTaskID t =
     (let h = New64a;
          h = Write h (Itoa (DataID t));
          h = Write h (Address t);
          h = Write h (Path t);
          h = writeLabels h (Labels t);
          h = Write h (Itoa (Meta_Index (Meta t)));
          h = Write h (Namespace t);
          h = Write h (Meta_Name (Meta t))
      in avoidOverflow (Sum64 h))"

section \<open>Errors\<close>

text \<open>
  A Go \<open>error\<close> value. \<open>StatusError\<close> is the API error of the cluster client with its HTTP
  status code; \<open>ErrWrap\<close> is \<^verbatim>\<open>errors.Wrap\<close> with the text put in front; \<open>ErrOther\<close> stands
  for the errors of the collaborators (database, HTTP transport).
\<close>

datatype err =
    ErrNilClusterInfo
  | StatusError nat
  | ErrOther string
  | ErrWrap string err

section \<open>Cluster resources (package service)\<close>

subsection \<open>Dynamically typed values\<close>

text \<open>
  The body of a resource is a \<^verbatim>\<open>map[string]interface{}\<close>. An \<^verbatim>\<open>interface{}\<close> value is
  \<open>nil\<close> or a value tagged with its dynamic type. The types that occur in the documents are
  strings, \<open>int64\<close>, booleans, \<^verbatim>\<open>map[string]interface{}\<close> (what JSON decoding and most of
  \<^verbatim>\<open>makeConfig\<close> produce), \<^verbatim>\<open>map[string]string\<close> (what \<^verbatim>\<open>makeConfig\<close> writes under
  \<^verbatim>\<open>spec.labels\<close>) and \<^verbatim>\<open>[]interface{}\<close>. Floating-point numbers are left out.

  A Go map is an association list with distinct keys. The order of the list stands for the
  order in which \<^verbatim>\<open>range\<close> visits the entries, which Go leaves unspecified: a statement
  about all lists is a statement about all visiting orders.
\<close>

datatype gval =
    GNil
  | GString string
  | GInt64 int
  | GBool bool
  | GMap "(string \<times> gval) list"
  | GStrMap "(string \<times> string) list"
  | GSlice "gval list"

type_synonym object = "(string \<times> gval) list"

datatype gtype = TString | TInt64 | TBool | TMapInterface | TMapString | TSlice

datatype gkind = KString | KInt64 | KBool | KMap | KSlice

datatype panic = NilDereference | Uncomparable

text \<open>\<^verbatim>\<open>reflect.TypeOf\<close> returns \<open>nil\<close> for a nil interface value.\<close>

fun TypeOf :: "gval \<Rightarrow> gtype option" where
  "TypeOf GNil = None"
| "TypeOf (GString _) = Some TString"
| "TypeOf (GInt64 _) = Some TInt64"
| "TypeOf (GBool _) = Some TBool"
| "TypeOf (GMap _) = Some TMapInterface"
| "TypeOf (GStrMap _) = Some TMapString"
| "TypeOf (GSlice _) = Some TSlice"

fun Kind :: "gtype \<Rightarrow> gkind" where
  "Kind TString = KString"
| "Kind TInt64 = KInt64"
| "Kind TBool = KBool"
| "Kind TMapInterface = KMap"
| "Kind TMapString = KMap"
| "Kind TSlice = KSlice"

text \<open>\<^verbatim>\<open>reflect.TypeOf(v).Kind()\<close>: calling \<^verbatim>\<open>Kind\<close> on the nil type panics.\<close>

definition TypeOf_Kind :: "gval \<Rightarrow> panic + gkind" where
  "TypeOf_Kind v = (case TypeOf v of None \<Rightarrow> Inl NilDereference | Some t \<Rightarrow> Inr (Kind t))"

text \<open>
  \<^verbatim>\<open>vMap, _ := v.(map[string]interface{})\<close>: the assertion succeeds on that dynamic type
  only; on any other value it yields the nil map, and its second result is discarded.
\<close>

fun asMapInterface :: "gval \<Rightarrow> object" where
  "asMapInterface (GMap m) = m"
| "asMapInterface _ = []"

fun comparable :: "gtype \<Rightarrow> bool" where
  "comparable TString = True"
| "comparable TInt64 = True"
| "comparable TBool = True"
| "comparable _ = False"

text \<open>
  \<^verbatim>\<open>v != val\<close> on interface values: values of different dynamic types differ; values of
  one comparable type are compared; values of one type that is not comparable (a map or a
  slice) make the comparison panic.
\<close>

definition interface_neq :: "gval \<Rightarrow> gval \<Rightarrow> panic + bool" where
  "interface_neq v val =
     (if TypeOf v \<noteq> TypeOf val then Inr True
      else case TypeOf v of
             None \<Rightarrow> Inr False
           | Some t \<Rightarrow> if comparable t then Inr (v \<noteq> val) else Inl Uncomparable)"

subsection \<open>isSameMapConfig\<close>

text \<open>
  \<^verbatim>\<open>
  func (b BcsClusterInfoSvc) isSameMapConfig(source map[string]interface{}, target map[string]interface{}) bool {
      for k, v := range source {
          val, ok := target[k]
          if !ok {
              return false
          }
          switch reflect.TypeOf(v).Kind() {
          case reflect.Map:
              if reflect.TypeOf(val).Kind() != reflect.Map {
                  return false
              } else {
                  vMap, _ := v.(map[string]interface{})
                  valMap, _ := val.(map[string]interface{})
                  if !b.isSameMapConfig(vMap, valMap) {
                      return false
                  }
              }
          default:
              if v != val {
                  return false
              }
          }
      }
      return true
  }
  \<close>
\<close>

lemma size_asMapInterface:
  "size_list (size_prod (\<lambda>_. 0) size) (asMapInterface v) < Suc (size v)"
  by (cases v) simp_all

function isSameMapConfig :: "object \<Rightarrow> object \<Rightarrow> panic + bool" where
  "isSameMapConfig [] target = Inr True"
| "isSameMapConfig ((k, v) # source) target =
     (case map_of target k of
        None \<Rightarrow> Inr False
      | Some val \<Rightarrow>
          (case TypeOf_Kind v of
             Inl p \<Rightarrow> Inl p
           | Inr KMap \<Rightarrow>
               (case TypeOf_Kind val of
                  Inl p \<Rightarrow> Inl p
                | Inr kval \<Rightarrow>
                    if kval \<noteq> KMap then Inr False
                    else (case isSameMapConfig (asMapInterface v) (asMapInterface val) of
                            Inl p \<Rightarrow> Inl p
                          | Inr same \<Rightarrow>
                              if \<not> same then Inr False else isSameMapConfig source target))
           | Inr _ \<Rightarrow>
               (case interface_neq v val of
                  Inl p \<Rightarrow> Inl p
                | Inr differ \<Rightarrow> if differ then Inr False else isSameMapConfig source target)))"
  by pat_completeness auto
termination
proof (relation "measure (\<lambda>(source, target). size_list (size_prod (\<lambda>_. 0) size) source)")
  fix k v source target
  have "size_list (size_prod (\<lambda>_. 0) size) (asMapInterface v) < Suc (size v)"
    by (rule size_asMapInterface)
  then show "((asMapInterface v, asMapInterface (val :: gval)), (k, v) # source, target)
      \<in> measure (\<lambda>(source, target). size_list (size_prod (\<lambda>_. 0) size) source)" for val
    by simp
qed simp_all

text \<open>
  \<^verbatim>\<open>
  func (b BcsClusterInfoSvc) isSameResourceConfig(dbConfig map[string]interface{}, currConfig map[string]interface{}) bool {
      return b.isSameMapConfig(dbConfig, currConfig)
  }
  \<close>
\<close>

definition isSameResourceConfig :: "object \<Rightarrow> object \<Rightarrow> panic + bool" where
  "isSameResourceConfig dbConfig currConfig = isSameMapConfig dbConfig currConfig"

subsection \<open>The cluster registration row and the static catalog\<close>

text \<open>
  Modelled from the spec: the struct \<^verbatim>\<open>bcs.BCSClusterInfo\<close> is declared in a package that is
  not among the source files. The record has the fields that the functions below read and write (the spec's
  ClusterRegistration: status, optional region attribute, pipeline identifiers); \<open>*int\<close> and
  \<open>*string\<close> fields are options, \<open>uint\<close> fields are naturals (below \<open>2 ^ 64\<close>). \<^verbatim>\<open>BcsClusterInfoSvc\<close> embeds a
  pointer to the row, which may be nil.
\<close>

record BCSClusterInfo =
  ClusterID :: string
  BCSApiClusterId :: string
  BkBizId :: int
  BkCloudId :: "int option"
  ProjectId :: string
  Status :: string
  BkEnv :: "string option"
  K8sMetricDataID :: nat
  CustomMetricDataID :: nat
  K8sEventDataID :: nat
  CustomEventDataID :: nat

type_synonym BcsClusterInfoSvc = "BCSClusterInfo option"

text \<open>
  Modelled from the spec: the constant \<^verbatim>\<open>models.BcsClusterStatusRunning\<close> is declared in a
  package that is not among the source files; the spec calls the status "running".
\<close>

definition BcsClusterStatusRunning :: string where
  "BcsClusterStatusRunning = ''running''"

text \<open>
  The constants of packages \<^verbatim>\<open>models\<close> and \<^verbatim>\<open>cfg\<close> that name the resource kind and the
  environment label are parameters.
\<close>

record Cfg =
  BcsResourceGroupName :: string
  BcsResourceVersion :: string
  BcsResourceDataIdResourceKind :: string
  BcsClusterBkEnvLabel :: string

record DatasourceRegister =
  EtlConfig :: string
  ReportClassName :: string
  DatasourceName :: string
  IsSpitMeasurement :: bool
  IsSystem :: bool
  Usage :: string

text \<open>
  \<^verbatim>\<open>bcsDatasourceRegisterInfo\<close> is a Go map with three entries; the functions below only
  range over its values. The list holds the values in the order of the declaration. The
  order in which \<^verbatim>\<open>range\<close> yields them is not specified, so the functions that range over the
  catalog take the visiting order as an argument.
\<close>

definition bcsDatasourceRegisterInfo :: "DatasourceRegister list" where
  "bcsDatasourceRegisterInfo =
     [\<lparr>EtlConfig = ''bk_standard_v2_time_series'', ReportClassName = ''TimeSeriesGroup'',
       DatasourceName = ''K8sMetricDataID'', IsSpitMeasurement = True, IsSystem = True,
       Usage = ''metric''\<rparr>,
      \<lparr>EtlConfig = ''bk_standard_v2_time_series'', ReportClassName = ''TimeSeriesGroup'',
       DatasourceName = ''CustomMetricDataID'', IsSpitMeasurement = True, IsSystem = False,
       Usage = ''metric''\<rparr>,
      \<lparr>EtlConfig = ''bk_standard_v2_event'', ReportClassName = ''EventGroup'',
       DatasourceName = ''K8sEventDataID'', IsSpitMeasurement = False, IsSystem = True,
       Usage = ''event''\<rparr>]"

subsection \<open>Strings\<close>

text \<open>\<^verbatim>\<open>strings.ToLower\<close> on the ASCII letters, which is all the catalog's names hold.\<close>

definition toLowerChar :: "char \<Rightarrow> char" where
  "toLowerChar c =
     (if (65::nat) \<le> of_char c \<and> of_char c \<le> (90::nat)
      then char_of (of_char c + (32::nat)) else c)"

definition ToLower :: "string \<Rightarrow> string" where
  "ToLower s = map toLowerChar s"

subsection \<open>Unstructured objects\<close>

text \<open>
  The accessors of \<^verbatim>\<open>unstructured.Unstructured\<close> that the code calls. \<^verbatim>\<open>GetName\<close> and
  \<^verbatim>\<open>GetResourceVersion\<close> read \<^verbatim>\<open>metadata.name\<close> and \<^verbatim>\<open>metadata.resourceVersion\<close>, and give the
  empty string when the path or a string is not there. \<^verbatim>\<open>SetResourceVersion\<close> writes the
  field, and removes it for the empty string.
\<close>

definition NestedString :: "object \<Rightarrow> string \<Rightarrow> string \<Rightarrow> string" where
  "NestedString obj f1 f2 =
     (case map_of obj f1 of
        Some (GMap m) \<Rightarrow> (case map_of m f2 of Some (GString s) \<Rightarrow> s | _ \<Rightarrow> [])
      | _ \<Rightarrow> [])"

definition GetName :: "object \<Rightarrow> string" where
  "GetName obj = NestedString obj ''metadata'' ''name''"

definition GetResourceVersion :: "object \<Rightarrow> string" where
  "GetResourceVersion obj = NestedString obj ''metadata'' ''resourceVersion''"

definition SetResourceVersion :: "object \<Rightarrow> string \<Rightarrow> object" where
  "SetResourceVersion obj version =
     (case map_of obj ''metadata'' of
        Some (GMap m) \<Rightarrow>
          AList.update ''metadata''
            (GMap (if version = [] then AList.delete ''resourceVersion'' m
                   else AList.update ''resourceVersion'' (GString version) m)) obj
      | Some _ \<Rightarrow> obj
      | None \<Rightarrow>
          if version = [] then obj
          else AList.update ''metadata'' (GMap [(''resourceVersion'', GString version)]) obj)"

text \<open>
  What the store gives back is decoded from JSON: every map comes back as a
  \<^verbatim>\<open>map[string]interface{}\<close>, also one that was sent as a \<^verbatim>\<open>map[string]string\<close>.
\<close>

fun jsonRoundTrip :: "gval \<Rightarrow> gval" where
  "jsonRoundTrip (GMap m) = GMap (map (\<lambda>kv. (fst kv, jsonRoundTrip (snd kv))) m)"
| "jsonRoundTrip (GStrMap m) = GMap (map (\<lambda>kv. (fst kv, GString (snd kv))) m)"
| "jsonRoundTrip (GSlice xs) = GSlice (map jsonRoundTrip xs)"
| "jsonRoundTrip v = v"

definition stored :: "object \<Rightarrow> object" where
  "stored config = map (\<lambda>kv. (fst kv, jsonRoundTrip (snd kv))) config"

subsection \<open>The resource store of the cluster\<close>

text \<open>
  Modelled from the spec: the external resource store (section 6: \<open>get(name) -> Resource |
  NotFound\<close>, \<open>create(resource)\<close>, \<open>update(resource)\<close>, \<open>list() -> []Resource\<close>), reached through
  the dynamic client of the cluster. The store holds the resources of the one kind the code
  addresses, in a list; \<open>outage\<close>, when set, is the error that every call returns (transport
  or client construction failing). A fetch of a missing name is the status error 404.
\<close>

record K8s =
  items :: "object list"
  outage :: "err option"

definition StatusNotFound :: nat where
  "StatusNotFound = 404"

definition StatusConflict :: nat where
  "StatusConflict = 409"

text \<open>Modelled from the spec: \<open>list() -> []Resource\<close> of the external resource store.\<close>

definition ListK8sResource :: "K8s \<Rightarrow> err + object list" where
  "ListK8sResource k = (case outage k of Some e \<Rightarrow> Inl e | None \<Rightarrow> Inr (items k))"

text \<open>Modelled from the spec: \<open>get(name) -> Resource | NotFound\<close> of the external resource store.\<close>

definition GetK8sResource :: "K8s \<Rightarrow> string \<Rightarrow> err + object" where
  "GetK8sResource k name =
     (case outage k of
        Some e \<Rightarrow> Inl e
      | None \<Rightarrow>
          (case find (\<lambda>res. GetName res = name) (items k) of
             None \<Rightarrow> Inl (StatusError StatusNotFound)
           | Some res \<Rightarrow> Inr res))"

text \<open>
  Modelled from the spec: \<open>create(resource)\<close> of the external resource store; creating a name
  that exists is a conflict.
\<close>

definition CreateK8sResource :: "K8s \<Rightarrow> object \<Rightarrow> err + K8s" where
  "CreateK8sResource k config =
     (case outage k of
        Some e \<Rightarrow> Inl e
      | None \<Rightarrow>
          if GetName config \<in> set (map GetName (items k))
          then Inl (StatusError StatusConflict)
          else Inr (k\<lparr>items := items k @ [stored config]\<rparr>))"

text \<open>
  Modelled from the spec: \<open>update(resource)\<close> of the external resource store; the resource of
  that name is replaced, and updating a missing name is not found.
\<close>

definition UpdateK8sResource :: "K8s \<Rightarrow> object \<Rightarrow> err + K8s" where
  "UpdateK8sResource k config =
     (case outage k of
        Some e \<Rightarrow> Inl e
      | None \<Rightarrow>
          if GetName config \<in> set (map GetName (items k))
          then Inr (k\<lparr>items := map (\<lambda>res. if GetName res = GetName config then stored config
                                            else res) (items k)\<rparr>)
          else Inl (StatusError StatusNotFound))"

subsection \<open>Replacement rules\<close>

text \<open>
  Modelled from the spec: \<^verbatim>\<open>ReplaceConfigSvc\<close> is not among the source files. Its two queries
  are parameters; each gives the metric and the dimension replacement rules as string
  maps ("replacement rules merged from a common baseline overridden by cluster-specific
  overrides"), or an error.
\<close>

record ReplaceConfig =
  ReplaceTypesMetric :: "(string \<times> string) list"
  ReplaceTypesDimension :: "(string \<times> string) list"

record ReplaceConfigSvc =
  GetCommonReplaceConfig :: "err + ReplaceConfig"
  GetClusterReplaceConfig :: "string \<Rightarrow> err + ReplaceConfig"

text \<open>
  \<^verbatim>\<open>
  for k, v := range clusterReplaceConfig[models.ReplaceTypesMetric] {
      replaceConfig[models.ReplaceTypesMetric][k] = v
  }
  \<close>
\<close>

definition override ::
  "(string \<times> string) list \<Rightarrow> (string \<times> string) list \<Rightarrow> (string \<times> string) list" where
  "override replaceConfig clusterReplaceConfig =
     foldl (\<lambda>m kv. AList.update (fst kv) (snd kv) m) replaceConfig clusterReplaceConfig"

subsection \<open>makeConfig and the resource names\<close>

text \<open>
  \<^verbatim>\<open>
  func (b BcsClusterInfoSvc) bkEnvLabel() string {
      if b.BkEnv != nil {
          return *b.BkEnv
      }
      return cfg.BcsClusterBkEnvLabel
  }
  func (b BcsClusterInfoSvc) composeDataidResourceName(name string) string {
      if b.bkEnvLabel() != "" {
          name = fmt.Sprintf("%s-%s", b.bkEnvLabel(), name)
      }
      return name
  }
  func (b BcsClusterInfoSvc) composeDataidResourceLabel(labels map[string]interface{}) interface{} {
      if b.bkEnvLabel() != "" {
          labels["bk_env"] = b.bkEnvLabel()
      }
      return labels
  }
  \<close>
\<close>

definition bkEnvLabel :: "Cfg \<Rightarrow> BCSClusterInfo \<Rightarrow> string" where
  "bkEnvLabel cfg b = (case BkEnv b of Some env \<Rightarrow> env | None \<Rightarrow> BcsClusterBkEnvLabel cfg)"

definition composeDataidResourceName :: "Cfg \<Rightarrow> BCSClusterInfo \<Rightarrow> string \<Rightarrow> string" where
  "composeDataidResourceName cfg b name =
     (if bkEnvLabel cfg b \<noteq> [] then bkEnvLabel cfg b @ ''-'' @ name else name)"

definition composeDataidResourceLabel :: "Cfg \<Rightarrow> BCSClusterInfo \<Rightarrow> object \<Rightarrow> gval" where
  "composeDataidResourceLabel cfg b labels =
     GMap (if bkEnvLabel cfg b \<noteq> []
           then AList.update ''bk_env'' (GString (bkEnvLabel cfg b)) labels
           else labels)"

text \<open>
  The conversion \<^verbatim>\<open>int64(x)\<close> of a 64-bit \<open>uint\<close>: the same 64 bits read as two's
  complement, so that values from \<open>2 ^ 63 = 9223372036854775808\<close> on come out negative
  (\<open>2 ^ 64 = 18446744073709551616\<close>).
\<close>

definition int64_of_uint :: "nat \<Rightarrow> int" where
  "int64_of_uint x =
     (let u = int x mod 18446744073709551616
      in if u < 9223372036854775808 then u else u - 18446744073709551616)"

text \<open>
  The \<^verbatim>\<open>switch register.DatasourceName\<close> of \<^verbatim>\<open>makeConfig\<close>, each case \<^verbatim>\<open>dataId = int64(b.<field>)\<close>;
  \<open>dataId\<close> stays 0 otherwise.
\<close>

definition dataIdOf :: "BCSClusterInfo \<Rightarrow> string \<Rightarrow> int" where
  "dataIdOf b name =
     (if name = ''K8sMetricDataID'' then int64_of_uint (K8sMetricDataID b)
      else if name = ''CustomMetricDataID'' then int64_of_uint (CustomMetricDataID b)
      else if name = ''K8sEventDataID'' then int64_of_uint (K8sEventDataID b)
      else if name = ''CustomEventDataID'' then int64_of_uint (CustomEventDataID b)
      else 0)"

text \<open>
  \<^verbatim>\<open>
  labels := map[string]interface{}{
      "usage":    register.Usage,
      "isCommon": "true",
      "isSystem": isSystem,
  }
  ...
  result := map[string]interface{}{
      "apiVersion": fmt.Sprintf("%s/%s", models.BcsResourceGroupName, models.BcsResourceVersion),
      "kind":       models.BcsResourceDataIdResourceKind,
      "metadata": map[string]interface{}{
          "name":   b.composeDataidResourceName(strings.ToLower(register.DatasourceName)),
          "labels": b.composeDataidResourceLabel(labels)},
      "spec": map[string]interface{}{
          "dataID": dataId,
          "labels": map[string]string{
              "bcs_cluster_id": b.ClusterID,
              "bk_biz_id":      strconv.Itoa(b.BkBizId),
          },
          "metricReplace":    replaceConfig[models.ReplaceTypesMetric],
          "dimensionReplace": replaceConfig[models.ReplaceTypesDimension],
      },
  }
  \<close>
\<close>

definition makeConfig ::
  "Cfg \<Rightarrow> 'a ReplaceConfigSvc_scheme \<Rightarrow> BCSClusterInfo \<Rightarrow> DatasourceRegister \<Rightarrow> err + object" where
  "makeConfig cfg rcSvc b register =
     (case GetCommonReplaceConfig rcSvc of
        Inl e \<Rightarrow> Inl e
      | Inr replaceConfig \<Rightarrow>
          (case GetClusterReplaceConfig rcSvc (ClusterID b) of
             Inl e \<Rightarrow> Inl e
           | Inr clusterReplaceConfig \<Rightarrow>
               let metricReplace =
                     override (ReplaceTypesMetric replaceConfig)
                       (ReplaceTypesMetric clusterReplaceConfig);
                   dimensionReplace =
                     override (ReplaceTypesDimension replaceConfig)
                       (ReplaceTypesDimension clusterReplaceConfig);
                   isSystem = (if IsSystem register then ''true'' else ''false'');
                   labels = [(''usage'', GString (Usage register)),
                             (''isCommon'', GString ''true''),
                             (''isSystem'', GString isSystem)];
                   dataId = dataIdOf b (DatasourceName register)
               in Inr
                 [(''apiVersion'',
                     GString (BcsResourceGroupName cfg @ ''/'' @ BcsResourceVersion cfg)),
                  (''kind'', GString (BcsResourceDataIdResourceKind cfg)),
                  (''metadata'', GMap
                     [(''name'', GString (composeDataidResourceName cfg b
                                            (ToLower (DatasourceName register)))),
                      (''labels'', composeDataidResourceLabel cfg b labels)]),
                  (''spec'', GMap
                     [(''dataID'', GInt64 dataId),
                      (''labels'', GStrMap [(''bcs_cluster_id'', ClusterID b),
                                           (''bk_biz_id'', Itoa (BkBizId b))]),
                      (''metricReplace'', GStrMap metricReplace),
                      (''dimensionReplace'', GStrMap dimensionReplace)])]))"

subsection \<open>ensureDataIdResource\<close>

text \<open>
  \<^verbatim>\<open>
  func (b BcsClusterInfoSvc) ensureDataIdResource(name string, config *unstructured.Unstructured) error {
      var action = "update"
      resp, err := b.GetK8sResource(name, ...)
      if err != nil {
          var realErr *k8sErr.StatusError
          if errors.As(err, &realErr) {
              if realErr.Status().Code == http.StatusNotFound {
                  action = "create"
              } else {
                  return err
              }
          } else {
              return err
          }
      }
      if action == "update" {
          config.SetResourceVersion(resp.GetResourceVersion())
          _, err = b.UpdateK8sResource(..., config)
          if err != nil {
              return errors.Wrap(err, fmt.Sprintf("update resource %s failed, %v", name, err))
          }
      } else {
          _, err = b.CreateK8sResource(..., config)
          if err != nil {
              return errors.Wrap(err, fmt.Sprintf("create resource %s failed, %v", name, err))
          }
      }
      return nil
  }
  \<close>
\<close>

definition ensureDataIdResource :: "K8s \<Rightarrow> string \<Rightarrow> object \<Rightarrow> err option \<times> K8s" where
  "ensureDataIdResource k name config =
     (case GetK8sResource k name of
        Inl (StatusError code) \<Rightarrow>
          if code = StatusNotFound
          then (case CreateK8sResource k config of
                  Inl e \<Rightarrow> (Some (ErrWrap (''create resource '' @ name @ '' failed'') e), k)
                | Inr k' \<Rightarrow> (None, k'))
          else (Some (StatusError code), k)
      | Inl e \<Rightarrow> (Some e, k)
      | Inr resp \<Rightarrow>
          (case UpdateK8sResource k (SetResourceVersion config (GetResourceVersion resp)) of
             Inl e \<Rightarrow> (Some (ErrWrap (''update resource '' @ name @ '' failed'') e), k)
           | Inr k' \<Rightarrow> (None, k')))"

subsection \<open>RefreshCommonResource\<close>

text \<open>
  \<^verbatim>\<open>
  func (b BcsClusterInfoSvc) RefreshCommonResource() error {
      if b.BCSClusterInfo == nil {
          return errors.New("BCSClusterInfo obj can not be nil")
      }
      resp, err := b.ListK8sResource(...)
      if err != nil {
          return err
      }
      resourceMap := make(map[string]unstructured.Unstructured)
      for _, res := range resp.Items {
          resourceMap[res.GetName()] = res
      }
      for _, register := range bcsDatasourceRegisterInfo {
          datasourceNameLower := b.composeDataidResourceName(strings.ToLower(register.DatasourceName))
          dataIdConfig, err := b.makeConfig(register)
          if err != nil {
              return err
          }
          if _, ok := resourceMap[datasourceNameLower]; !ok {
              if err := b.ensureDataIdResource(datasourceNameLower, dataIdConfig); err != nil {
                  return err
              }
              return nil
          }
          res := resourceMap[datasourceNameLower]
          if !b.isSameResourceConfig(dataIdConfig.UnstructuredContent(), res.UnstructuredContent()) {
              if err := b.ensureDataIdResource(datasourceNameLower, dataIdConfig); err != nil {
                  return err
              }
          }
      }
      return nil
  }
  \<close>
  The function has no \<open>recover\<close>: a panic of the comparison leaves it as a panic. The
  result is the returned error (or the panic) and the store after the calls.
\<close>

definition resourceMapOf :: "object list \<Rightarrow> (string \<rightharpoonup> object)" where
  "resourceMapOf resp = foldl (\<lambda>resourceMap res. resourceMap(GetName res \<mapsto> res)) Map.empty resp"

datatype 'a result = Panicked panic | Returned 'a

fun refreshRegisters ::
  "Cfg \<Rightarrow> 'a ReplaceConfigSvc_scheme \<Rightarrow> BCSClusterInfo \<Rightarrow> (string \<rightharpoonup> object)
     \<Rightarrow> DatasourceRegister list \<Rightarrow> K8s \<Rightarrow> err option result \<times> K8s" where
  "refreshRegisters cfg rcSvc b resourceMap [] k = (Returned None, k)"
| "refreshRegisters cfg rcSvc b resourceMap (register # registers) k =
     (let datasourceNameLower =
            composeDataidResourceName cfg b (ToLower (DatasourceName register)) in
      case makeConfig cfg rcSvc b register of
        Inl e \<Rightarrow> (Returned (Some e), k)
      | Inr dataIdConfig \<Rightarrow>
          (case resourceMap datasourceNameLower of
             None \<Rightarrow>
               (case ensureDataIdResource k datasourceNameLower dataIdConfig of
                  (Some e, k') \<Rightarrow> (Returned (Some e), k')
                | (None, k') \<Rightarrow> (Returned None, k'))
           | Some res \<Rightarrow>
               (case isSameResourceConfig dataIdConfig res of
                  Inl p \<Rightarrow> (Panicked p, k)
                | Inr same \<Rightarrow>
                    if \<not> same
                    then (case ensureDataIdResource k datasourceNameLower dataIdConfig of
                            (Some e, k') \<Rightarrow> (Returned (Some e), k')
                          | (None, k') \<Rightarrow> refreshRegisters cfg rcSvc b resourceMap registers k')
                    else refreshRegisters cfg rcSvc b resourceMap registers k)))"

definition RefreshCommonResource ::
  "Cfg \<Rightarrow> 'a ReplaceConfigSvc_scheme \<Rightarrow> DatasourceRegister list \<Rightarrow> BcsClusterInfoSvc \<Rightarrow> K8s
     \<Rightarrow> err option result \<times> K8s" where
  "RefreshCommonResource cfg rcSvc registers b k =
     (case b of
        None \<Rightarrow> (Returned (Some ErrNilClusterInfo), k)
      | Some info \<Rightarrow>
          (case ListK8sResource k of
             Inl e \<Rightarrow> (Returned (Some e), k)
           | Inr resp \<Rightarrow> refreshRegisters cfg rcSvc info (resourceMapOf resp) registers k))"

subsection \<open>UpdateBcsClusterCloudIdConfig\<close>

text \<open>
  The records that the inference reads: a node of \<^verbatim>\<open>FetchK8sNodeListByCluster\<close>, a parameter
  of the host lookup, and a host record of the inventory (\<^verbatim>\<open>cmdb.ListBizHostsTopoDataInfo\<close>,
  of which the code reads \<^verbatim>\<open>Host.BkHostInnerip\<close>, \<^verbatim>\<open>Host.BkHostInneripV6\<close> and
  \<^verbatim>\<open>Host.BkCloudId\<close>).
\<close>

record K8sNodeInfo =
  BcsClusterId :: string
  Node_Name :: string
  NodeIp :: string
  Node_Status :: string
  EndpointCount :: int
  PodCount :: int

record GetHostByIpParams =
  Ip :: string
  Param_BkCloudId :: int

record ListBizHostsTopoDataInfoHost =
  BkHostInnerip :: string
  BkHostInneripV6 :: string
  Host_BkCloudId :: int

record ListBizHostsTopoDataInfo =
  Host :: ListBizHostsTopoDataInfoHost

text \<open>
  The calls that leave the process are parameters: the node listing and the host lookup
  (HTTP), and the database update of the row, which is recorded as a call (the row as
  written and the columns named) and whose error, if any, is the parameter's. \<open>rangeCloudCount\<close>
  is the order in which \<^verbatim>\<open>range cloudCount\<close> visits the tally: the Go runtime picks it.
\<close>

datatype column =
  Column_BkCloudId | Column_K8sMetricDataID | Column_CustomMetricDataID | Column_K8sEventDataID

record UpdateCall =
  row :: BCSClusterInfo
  columns :: "column list"

record Collaborators =
  FetchK8sNodeListByCluster :: "string \<Rightarrow> err + K8sNodeInfo list"
  getHostByIp :: "GetHostByIpParams list \<Rightarrow> int \<Rightarrow> err + ListBizHostsTopoDataInfo list"
  Update :: "BCSClusterInfo \<Rightarrow> column list \<Rightarrow> err option"
  rangeCloudCount :: "(int \<times> int) list \<Rightarrow> (int \<times> int) list"

text \<open>
  \<^verbatim>\<open>
  var ipSplits = make([][]string, 0)
  for _, node := range apiNodes {
      if node.NodeIp == "" {
          continue
      }
      splitsSize := len(ipSplits)
      if splitsSize != 0 && len(ipSplits[splitsSize-1]) < 100 {
          ipSplits[splitsSize-1] = append(ipSplits[splitsSize-1], node.NodeIp)
      } else {
          ipSplits = append(ipSplits, []string{node.NodeIp})
      }
  }
  \<close>
\<close>

definition appendIp :: "string list list \<Rightarrow> K8sNodeInfo \<Rightarrow> string list list" where
  "appendIp ipSplits node =
     (if NodeIp node = [] then ipSplits
      else let splitsSize = length ipSplits in
        if splitsSize \<noteq> 0 \<and> length (ipSplits ! (splitsSize - 1)) < 100
        then ipSplits[splitsSize - 1 := ipSplits ! (splitsSize - 1) @ [NodeIp node]]
        else ipSplits @ [ [NodeIp node] ])"

definition makeIpSplits :: "K8sNodeInfo list \<Rightarrow> string list list" where
  "makeIpSplits apiNodes = foldl appendIp [] apiNodes"

text \<open>
  \<^verbatim>\<open>
  var ipMap = make(map[string]int)
  for _, ips := range ipSplits {
      var params []GetHostByIpParams
      for _, ip := range ips {
          params = append(params, GetHostByIpParams{Ip: ip, BkCloudId: -1})
      }
      hostInfo, err := b.getHostByIp(params, b.BkBizId)
      if err != nil {
          return err
      }
      for _, info := range hostInfo {
          if info.Host.BkHostInnerip != "" {
              ip := strings.Split(info.Host.BkHostInnerip, ",")[0]
              ipMap[ip] = info.Host.BkCloudId
          }
          if info.Host.BkHostInneripV6 != "" {
              ip := strings.Split(info.Host.BkHostInneripV6, ",")[0]
              ipMap[ip] = info.Host.BkCloudId
          }
      }
  }
  \<close>
  \<^verbatim>\<open>strings.Split(s, ",")[0]\<close> is the part of \<open>s\<close> before its first comma.
\<close>

definition firstField :: "string \<Rightarrow> string" where
  "firstField s = takeWhile (\<lambda>c. c \<noteq> CHR '','') s"

definition recordHost :: "(string \<rightharpoonup> int) \<Rightarrow> ListBizHostsTopoDataInfo \<Rightarrow> (string \<rightharpoonup> int)" where
  "recordHost ipMap info =
     (let ipMap = (if BkHostInnerip (Host info) \<noteq> []
                   then ipMap(firstField (BkHostInnerip (Host info)) \<mapsto> Host_BkCloudId (Host info))
                   else ipMap);
          ipMap = (if BkHostInneripV6 (Host info) \<noteq> []
                   then ipMap(firstField (BkHostInneripV6 (Host info)) \<mapsto> Host_BkCloudId (Host info))
                   else ipMap)
      in ipMap)"

fun makeIpMap ::
  "'a Collaborators_scheme \<Rightarrow> int \<Rightarrow> (string \<rightharpoonup> int) \<Rightarrow> string list list
     \<Rightarrow> err + (string \<rightharpoonup> int)" where
  "makeIpMap c bizId ipMap [] = Inr ipMap"
| "makeIpMap c bizId ipMap (ips # ipSplits) =
     (let params = map (\<lambda>ip. \<lparr>Ip = ip, Param_BkCloudId = - 1\<rparr>) ips in
      case getHostByIp c params bizId of
        Inl e \<Rightarrow> Inl e
      | Inr hostInfo \<Rightarrow> makeIpMap c bizId (foldl recordHost ipMap hostInfo) ipSplits)"

text \<open>
  \<^verbatim>\<open>
  cloudCount := make(map[int]int)
  for _, node := range apiNodes {
      bkCloudId, ok := ipMap[node.NodeIp]
      if !ok {
          continue
      }
      cloudCount[bkCloudId] = cloudCount[bkCloudId] + 1
  }
  \<close>
  The tally is an association list with distinct keys; a missing key reads as 0.
\<close>

definition countOf :: "(int \<times> int) list \<Rightarrow> int \<Rightarrow> int" where
  "countOf cloudCount cloudId = (case map_of cloudCount cloudId of None \<Rightarrow> 0 | Some n \<Rightarrow> n)"

definition countNode ::
  "(string \<rightharpoonup> int) \<Rightarrow> (int \<times> int) list \<Rightarrow> K8sNodeInfo \<Rightarrow> (int \<times> int) list" where
  "countNode ipMap cloudCount node =
     (case ipMap (NodeIp node) of
        None \<Rightarrow> cloudCount
      | Some bkCloudId \<Rightarrow> AList.update bkCloudId (countOf cloudCount bkCloudId + 1) cloudCount)"

definition makeCloudCount :: "(string \<rightharpoonup> int) \<Rightarrow> K8sNodeInfo list \<Rightarrow> (int \<times> int) list" where
  "makeCloudCount ipMap apiNodes = foldl (countNode ipMap) [] apiNodes"

text \<open>
  \<^verbatim>\<open>
  maxCountCloudId := 0
  maxCount := 0
  for cloudId, count := range cloudCount {
      if count > maxCount {
          maxCountCloudId = cloudId
          maxCount = count
      }
  }
  \<close>
\<close>

definition maxStep :: "int \<times> int \<Rightarrow> int \<times> int \<Rightarrow> int \<times> int" where
  "maxStep acc entry =
     (case acc of (maxCountCloudId, maxCount) \<Rightarrow>
        case entry of (cloudId, cnt) \<Rightarrow>
          if cnt > maxCount then (cloudId, cnt) else (maxCountCloudId, maxCount))"

definition maxCountCloud :: "(int \<times> int) list \<Rightarrow> int" where
  "maxCountCloud visited = fst (foldl maxStep (0, 0) visited)"

text \<open>
  \<^verbatim>\<open>
  func (b BcsClusterInfoSvc) UpdateBcsClusterCloudIdConfig() error {
      if b.BCSClusterInfo == nil {
          return errors.New("BCSClusterInfo obj can not be nil")
      }
      if b.Status != models.BcsClusterStatusRunning || b.BkCloudId != nil {
          return nil
      }
      apiNodes, err := b.FetchK8sNodeListByCluster(b.ClusterID)
      if err != nil {
          return err
      }
      ...
      b.BkCloudId = &maxCountCloudId
      return b.Update(mysql.GetDBSession().DB, bcs.BCSClusterInfoDBSchema.BkCloudId)
  }
  \<close>
  The result is the returned error, the row behind the pointer after the call, and the
  database updates issued so far.
\<close>

definition UpdateBcsClusterCloudIdConfig ::
  "'a Collaborators_scheme \<Rightarrow> BcsClusterInfoSvc \<Rightarrow> UpdateCall list
     \<Rightarrow> err option \<times> BcsClusterInfoSvc \<times> UpdateCall list" where
  "UpdateBcsClusterCloudIdConfig c b db =
     (case b of
        None \<Rightarrow> (Some ErrNilClusterInfo, b, db)
      | Some info \<Rightarrow>
          if Status info \<noteq> BcsClusterStatusRunning \<or> BkCloudId info \<noteq> None then (None, b, db)
          else case FetchK8sNodeListByCluster c (ClusterID info) of
            Inl e \<Rightarrow> (Some e, b, db)
          | Inr apiNodes \<Rightarrow>
              (case makeIpMap c (BkBizId info) Map.empty (makeIpSplits apiNodes) of
                 Inl e \<Rightarrow> (Some e, b, db)
               | Inr ipMap \<Rightarrow>
                   let cloudCount = makeCloudCount ipMap apiNodes;
                       maxCountCloudId = maxCountCloud (rangeCloudCount c cloudCount);
                       info = info\<lparr>BkCloudId := Some maxCountCloudId\<rparr>
                   in (Update c info [Column_BkCloudId], Some info,
                       db @ [\<lparr>row = info, columns = [Column_BkCloudId]\<rparr>])))"

section \<open>Refresh tasks (package task)\<close>

subsection \<open>RefreshESStorage\<close>

text \<open>
  Modelled from the spec: the row types \<^verbatim>\<open>storage.ESStorage\<close> and \<^verbatim>\<open>resulttable.ResultTable\<close> and
  their generated query sets are not among the source files. A storage row is keyed by its
  table identifier; a result table row has a table identifier, an enabled flag and a
  soft-delete flag. \<open>ESStorage_All\<close> is \<^verbatim>\<open>NewESStorageQuerySet(db).All\<close>; \<open>ResultTable_query\<close> is
  \<^verbatim>\<open>NewResultTableQuerySet(db).IsEnableEq(true).IsDeletedEq(false).TableIdIn(ids...).All\<close>: "the
  table-link table restricted to enabled, non-deleted rows" among the given identifiers.
  Either query can fail with the error the database holds for it.
\<close>

record ESStorage =
  TableID :: string
  StorageClusterID :: nat

record ResultTable =
  TableId :: string
  IsEnable :: bool
  IsDeleted :: bool

record MetadataDB =
  es_storage_rows :: "ESStorage list"
  es_storage_error :: "err option"
  result_table_rows :: "ResultTable list"
  result_table_error :: "err option"

text \<open>Modelled from the spec: the query for all storage records (query set not among the source files).\<close>

definition ESStorage_All :: "MetadataDB \<Rightarrow> err + ESStorage list" where
  "ESStorage_All db =
     (case es_storage_error db of Some e \<Rightarrow> Inl e | None \<Rightarrow> Inr (es_storage_rows db))"

text \<open>
  Modelled from the spec: the query for the enabled, non-deleted result table rows whose
  identifier is among the given ones (query set not among the source files).
\<close>

definition ResultTable_query :: "MetadataDB \<Rightarrow> string list \<Rightarrow> err + ResultTable list" where
  "ResultTable_query db tableIds =
     (case result_table_error db of
        Some e \<Rightarrow> Inl e
      | None \<Rightarrow>
          Inr (filter (\<lambda>rt. IsEnable rt \<and> \<not> IsDeleted rt \<and> TableId rt \<in> set tableIds)
                 (result_table_rows db)))"

text \<open>
  \<^verbatim>\<open>
  var esStorageTableIdList []string
  var tableIdEsStorageMap = make(map[string]storage.ESStorage)
  for _, esStorage := range allEsStorageList {
      esStorageTableIdList = append(esStorageTableIdList, esStorage.TableID)
      tableIdEsStorageMap[esStorage.TableID] = esStorage
  }
  ...
  var needUpdateEsStorageList []storage.ESStorage
  for _, rt := range resultTableList {
      esStorage, ok := tableIdEsStorageMap[rt.TableId]
      if ok {
          needUpdateEsStorageList = append(needUpdateEsStorageList, esStorage)
      }
  }
  \<close>
\<close>

definition makeTableIdEsStorageMap :: "ESStorage list \<Rightarrow> (string \<rightharpoonup> ESStorage)" where
  "makeTableIdEsStorageMap allEsStorageList =
     foldl (\<lambda>tableIdEsStorageMap esStorage. tableIdEsStorageMap(TableID esStorage \<mapsto> esStorage))
       Map.empty allEsStorageList"

definition makeNeedUpdateEsStorageList ::
  "(string \<rightharpoonup> ESStorage) \<Rightarrow> ResultTable list \<Rightarrow> ESStorage list" where
  "makeNeedUpdateEsStorageList tableIdEsStorageMap resultTableList =
     foldl (\<lambda>needUpdateEsStorageList rt.
              case tableIdEsStorageMap (TableId rt) of
                Some esStorage \<Rightarrow> needUpdateEsStorageList @ [esStorage]
              | None \<Rightarrow> needUpdateEsStorageList)
       [] resultTableList"

text \<open>
  \<^verbatim>\<open>
  func RefreshESStorage(ctx context.Context, t *t.Task) error {
      defer func() {
          if err := recover(); err != nil {
              logger.Errorf("RefreshESStorage Runtime panic caught: %v", err)
          }
      }()
      ...
      if err := storage.NewESStorageQuerySet(dbSession.DB).All(&allEsStorageList); err != nil {
          return err
      }
      ...
      if len(esStorageTableIdList) == 0 {
          return nil
      }
      if err := resulttable.NewResultTableQuerySet(dbSession.DB).IsEnableEq(true).IsDeletedEq(false).
          TableIdIn(esStorageTableIdList...).All(&resultTableList); err != nil {
          return err
      }
      ...
      if len(needUpdateEsStorageList) == 0 {
          return nil
      }
      wg := &sync.WaitGroup{}
      ch := make(chan bool, GetGoroutineLimit("refresh_es_storage"))
      wg.Add(len(needUpdateEsStorageList))
      for _, esStorage := range needUpdateEsStorageList {
          ch <- true
          go func(ess storage.ESStorage, wg *sync.WaitGroup, ch chan bool) {
              defer func() {
                  <-ch
                  wg.Done()
              }()
              if err := ess.ManageESStorage(ctx); err != nil {
                  logger.Errorf(...)
              } else {
                  logger.Infof(...)
              }
          }(esStorage, wg, ch)
      }
      wg.Wait()
      return nil
  }
  \<close>
  The pass as a function of what the database holds, of the outcome of \<^verbatim>\<open>ManageESStorage\<close> on
  each record and of the limit that \<^verbatim>\<open>GetGoroutineLimit\<close> returns (a function that is not
  among the source files; its result is an \<open>int\<close> that nothing checks before \<^verbatim>\<open>make\<close>).

  A reconcile call returns nil, returns an error, or panics. The deferred function of the
  worker goroutine only receives from the channel and signals the wait group: it has no
  \<open>recover\<close>, and the \<open>recover\<close> of \<^verbatim>\<open>RefreshESStorage\<close> belongs to the goroutine of the
  caller. A panic of a reconcile call therefore ends the process (\<open>Crashed\<close>); the steps
  by which it does, and what the caller can still do before the process is gone, are in
  the next subsection.

  The pass returns (an error or nil), blocks for ever, or ends with the process. A negative
  limit makes \<^verbatim>\<open>make(chan bool, n)\<close> panic, which the deferred \<open>recover\<close> turns into a nil
  return with nothing dispatched; the limit 0 gives an unbuffered channel, on which the
  first send blocks for ever, no receiver having been started. \<open>dispatched\<close> holds the
  records handed to the dispatch loop, in its order, each with the outcome of its reconcile
  call; when a call panics, the calls of the records after it need not have been made.
\<close>

datatype reconcile = Succeeded | Failed err | Panics

datatype pass = Return "err option" | BlockedForever | Crashed

record Outcome =
  pass :: pass
  dispatched :: "(ESStorage \<times> reconcile) list"

definition RefreshESStorage ::
  "MetadataDB \<Rightarrow> (ESStorage \<Rightarrow> reconcile) \<Rightarrow> int \<Rightarrow> Outcome" where
  "RefreshESStorage db ManageESStorage goroutineLimit =
     (case ESStorage_All db of
        Inl e \<Rightarrow> \<lparr>pass = Return (Some e), dispatched = []\<rparr>
      | Inr allEsStorageList \<Rightarrow>
          let esStorageTableIdList = map TableID allEsStorageList;
              tableIdEsStorageMap = makeTableIdEsStorageMap allEsStorageList
          in if length esStorageTableIdList = 0 then \<lparr>pass = Return None, dispatched = []\<rparr>
             else case ResultTable_query db esStorageTableIdList of
               Inl e \<Rightarrow> \<lparr>pass = Return (Some e), dispatched = []\<rparr>
             | Inr resultTableList \<Rightarrow>
                 let needUpdateEsStorageList =
                       makeNeedUpdateEsStorageList tableIdEsStorageMap resultTableList
                 in if length needUpdateEsStorageList = 0
                    then \<lparr>pass = Return None, dispatched = []\<rparr>
                    else if goroutineLimit < 0 then \<lparr>pass = Return None, dispatched = []\<rparr>
                    else if goroutineLimit = 0 then \<lparr>pass = BlockedForever, dispatched = []\<rparr>
                    else \<lparr>pass = (if Panics \<in> set (map ManageESStorage needUpdateEsStorageList)
                                  then Crashed else Return None),
                          dispatched = map (\<lambda>ess. (ess, ManageESStorage ess))
                                         needUpdateEsStorageList\<rparr>)"

subsection \<open>The dispatch loop as interleaved steps\<close>

text \<open>
  The fan-out of \<^verbatim>\<open>RefreshESStorage\<close> (the other refresh tasks repeat it) as a transition
  system. The state holds the entities the loop has not reached yet, the entity whose token
  has been sent and whose goroutine has not been started yet, the number of tokens in the
  channel, the counter of the wait group, and the goroutines started so far, each with the
  entity it was given and its phase:
  \<^item> \<open>Reconciling\<close>: inside \<^verbatim>\<open>ManageESStorage\<close>;
  \<^item> \<open>Receiving\<close>: the call is over (it returned or panicked), the deferred function is
    about to run \<^verbatim>\<open><-ch\<close>;
  \<^item> \<open>Signalling\<close>: the token is taken, \<^verbatim>\<open>wg.Done()\<close> comes next;
  \<^item> \<open>Exited\<close>: the deferred function is over.
  \<open>panicking\<close> lists the goroutines whose reconcile call panicked: their deferred function
  runs as for the others, and once it is over the panic, which nothing recovers, ends the
  process (\<open>crashed\<close>). \<open>panicked\<close> is the panic of \<^verbatim>\<open>wg.Done()\<close> on a negative counter.

  An action is one atomic step of one goroutine: \<open>Send\<close> is \<^verbatim>\<open>ch <- true\<close> of the loop (it
  blocks while the channel holds as many tokens as its capacity), \<open>Go\<close> is the \<^verbatim>\<open>go\<close>
  statement, \<open>Finish i\<close> is the return of the reconcile call of goroutine \<open>i\<close> and \<open>Panic i\<close>
  its panic, \<open>Recv i\<close> is its \<^verbatim>\<open><-ch\<close>, \<open>Done i\<close> its \<^verbatim>\<open>wg.Done()\<close>, \<open>Crash i\<close> the end of the
  process by the panic of goroutine \<open>i\<close>, and \<open>Wait\<close> is the return of \<^verbatim>\<open>wg.Wait()\<close> after the
  loop, at counter 0. \<open>step\<close> is \<open>None\<close> where the action cannot be taken in the state;
  nothing can be taken once the process has ended. A schedule is a list of actions: every
  interleaving of the goroutines is a schedule.

  The capacity is the \<open>int\<close> that \<^verbatim>\<open>GetGoroutineLimit\<close> returns. \<^verbatim>\<open>make(chan bool, n)\<close> panics for
  a negative \<open>n\<close>, before \<^verbatim>\<open>wg.Add\<close> and the loop; the deferred \<open>recover\<close> of the caller turns
  that into its return: the dispatch starts in a state where the caller has returned and no
  entity has been reached.
\<close>

datatype phase = Reconciling | Receiving | Signalling | Exited

record 'e dispatch =
  pending :: "'e list"
  sent :: "'e option"
  ch :: nat
  wg :: int
  goroutines :: "('e \<times> phase) list"
  panicking :: "nat list"
  panicked :: bool
  crashed :: bool
  returned :: bool

datatype action = Send | Go | Finish nat | Panic nat | Recv nat | Done nat | Crash nat | Wait

definition start :: "int \<Rightarrow> 'e list \<Rightarrow> 'e dispatch" where
  "start goroutineLimit entities =
     (if goroutineLimit < 0
      then \<lparr>pending = entities, sent = None, ch = 0, wg = 0, goroutines = [], panicking = [],
            panicked = False, crashed = False, returned = True\<rparr>
      else \<lparr>pending = entities, sent = None, ch = 0, wg = int (length entities), goroutines = [],
            panicking = [], panicked = False, crashed = False, returned = False\<rparr>)"

definition phaseOf :: "'e dispatch \<Rightarrow> nat \<Rightarrow> phase option" where
  "phaseOf s i = (if i < length (goroutines s) then Some (snd (goroutines s ! i)) else None)"

definition setPhase :: "'e dispatch \<Rightarrow> nat \<Rightarrow> phase \<Rightarrow> 'e dispatch" where
  "setPhase s i p = s\<lparr>goroutines := (goroutines s)[i := (fst (goroutines s ! i), p)]\<rparr>"

text \<open>The process has ended: by the panic of a worker or by that of the wait group.\<close>

definition halted :: "'e dispatch \<Rightarrow> bool" where
  "halted s = (panicked s \<or> crashed s)"

fun step :: "int \<Rightarrow> action \<Rightarrow> 'e dispatch \<Rightarrow> 'e dispatch option" where
  "step goroutineLimit Send s =
     (if returned s \<or> halted s \<or> sent s \<noteq> None then None
      else case pending s of
        [] \<Rightarrow> None
      | e # es \<Rightarrow>
          if int (ch s) < goroutineLimit
          then Some (s\<lparr>pending := es, sent := Some e, ch := ch s + 1\<rparr>) else None)"
| "step goroutineLimit Go s =
     (if returned s \<or> halted s then None
      else case sent s of
        None \<Rightarrow> None
      | Some e \<Rightarrow> Some (s\<lparr>sent := None, goroutines := goroutines s @ [(e, Reconciling)]\<rparr>))"
| "step goroutineLimit (Finish i) s =
     (if halted s then None
      else if phaseOf s i = Some Reconciling then Some (setPhase s i Receiving) else None)"
| "step goroutineLimit (Panic i) s =
     (if halted s then None
      else if phaseOf s i = Some Reconciling
      then Some ((setPhase s i Receiving)\<lparr>panicking := i # panicking s\<rparr>) else None)"
| "step goroutineLimit (Recv i) s =
     (if halted s then None
      else if phaseOf s i = Some Receiving \<and> 0 < ch s
      then Some ((setPhase s i Signalling)\<lparr>ch := ch s - 1\<rparr>) else None)"
| "step goroutineLimit (Done i) s =
     (if halted s then None
      else if phaseOf s i = Some Signalling
      then Some ((setPhase s i Exited)\<lparr>wg := wg s - 1, panicked := (wg s - 1 < 0)\<rparr>) else None)"
| "step goroutineLimit (Crash i) s =
     (if halted s then None
      else if phaseOf s i = Some Exited \<and> i \<in> set (panicking s)
      then Some (s\<lparr>crashed := True\<rparr>) else None)"
| "step goroutineLimit Wait s =
     (if returned s \<or> halted s \<or> sent s \<noteq> None \<or> pending s \<noteq> [] then None
      else if wg s = 0 then Some (s\<lparr>returned := True\<rparr>) else None)"

fun run :: "int \<Rightarrow> action list \<Rightarrow> 'e dispatch \<Rightarrow> 'e dispatch option" where
  "run goroutineLimit [] s = Some s"
| "run goroutineLimit (a # as) s =
     (case step goroutineLimit a s of None \<Rightarrow> None | Some s' \<Rightarrow> run goroutineLimit as s')"



section \<open>Reference notions and example data\<close>

text \<open>
  The tally of the spec: the number of nodes whose address resolves to a given region.
  It is stated on the node list and the address map, apart from the loop that computes it.
\<close>

definition resolvedTo :: "(string \<rightharpoonup> int) \<Rightarrow> K8sNodeInfo list \<Rightarrow> int \<Rightarrow> nat" where
  "resolvedTo ipMap apiNodes cloudId =
     length (filter (\<lambda>node. ipMap (NodeIp node) = Some cloudId) apiNodes)"

text \<open>
  A cluster of five nodes of which three resolve to region 7 and two to region 9 (the
  spec's example A:3, B:2), with collaborators that answer without error and a runtime
  that visits the tally in reverse order.
\<close>

definition example_node :: "string \<Rightarrow> K8sNodeInfo" where
  "example_node ip =
     \<lparr>BcsClusterId = ''BCS-K8S-00001'', Node_Name = ip, NodeIp = ip, Node_Status = ''Ready'',
      EndpointCount = 0, PodCount = 0\<rparr>"

definition example_host :: "string \<Rightarrow> int \<Rightarrow> ListBizHostsTopoDataInfo" where
  "example_host ip cloudId =
     \<lparr>Host = \<lparr>BkHostInnerip = ip, BkHostInneripV6 = [], Host_BkCloudId = cloudId\<rparr>\<rparr>"

definition example_nodes :: "K8sNodeInfo list" where
  "example_nodes = map example_node [''10.0.0.1'', ''10.0.0.2'', ''10.0.0.3'', ''10.0.0.4'', ''10.0.0.5'']"

definition example_hosts :: "ListBizHostsTopoDataInfo list" where
  "example_hosts =
     [example_host ''10.0.0.1'' 7, example_host ''10.0.0.2'' 9, example_host ''10.0.0.3'' 7,
      example_host ''10.0.0.4'' 9, example_host ''10.0.0.5'' 7]"

definition example_collaborators :: "K8sNodeInfo list \<Rightarrow> ListBizHostsTopoDataInfo list \<Rightarrow> Collaborators" where
  "example_collaborators nodes hosts =
     \<lparr>FetchK8sNodeListByCluster = (\<lambda>clusterId. Inr nodes),
      getHostByIp = (\<lambda>params bizId. Inr hosts),
      Update = (\<lambda>info cols. None),
      rangeCloudCount = rev\<rparr>"

definition example_cluster :: BCSClusterInfo where
  "example_cluster =
     \<lparr>ClusterID = ''BCS-K8S-00001'', BCSApiClusterId = ''BCS-K8S-00001'', BkBizId = 2,
      BkCloudId = None, ProjectId = ''p1'', Status = ''running'', BkEnv = None,
      K8sMetricDataID = 1001, CustomMetricDataID = 1002, K8sEventDataID = 1003,
      CustomEventDataID = 0\<rparr>"

definition example_ipMap :: "string \<rightharpoonup> int" where
  "example_ipMap =
     [''10.0.0.1'' \<mapsto> 7, ''10.0.0.2'' \<mapsto> 9, ''10.0.0.3'' \<mapsto> 7, ''10.0.0.4'' \<mapsto> 9, ''10.0.0.5'' \<mapsto> 7]"

text \<open>
  The comparison in the spec's words, for reference: a desired tree is covered by an
  observed tree when every key of the desired tree is present in the observed tree with the
  same value, where a map is the same as a map that covers it, a map is never the same as a
  value that is not a map, and other values are the same when they are equal. A value is
  plain when it is a string, an \<open>int64\<close>, a boolean or a \<^verbatim>\<open>map[string]interface{}\<close> of plain
  values.
\<close>

fun plain :: "gval \<Rightarrow> bool" where
  "plain (GString s) = True"
| "plain (GInt64 i) = True"
| "plain (GBool b) = True"
| "plain (GMap m) = list_all (\<lambda>kv. plain (snd kv)) m"
| "plain v = False"

fun sameValue :: "gval \<Rightarrow> gval \<Rightarrow> bool" where
  "sameValue (GMap m) val =
     (case val of
        GMap m' \<Rightarrow>
          list_all (\<lambda>kv. case map_of m' (fst kv) of
                            None \<Rightarrow> False
                          | Some val' \<Rightarrow> sameValue (snd kv) val') m
      | _ \<Rightarrow> False)"
| "sameValue v val = (v = val)"

definition covered :: "object \<Rightarrow> object \<Rightarrow> bool" where
  "covered source target =
     list_all (\<lambda>kv. case map_of target (fst kv) of
                       None \<Rightarrow> False
                     | Some val \<Rightarrow> sameValue (snd kv) val) source"

text \<open>
  A table identifier is live when some result table row with that identifier is enabled
  and not soft-deleted.
\<close>

definition liveTable :: "ResultTable list \<Rightarrow> string \<Rightarrow> bool" where
  "liveTable resultTables tableId =
     (\<exists>rt \<in> set resultTables. TableId rt = tableId \<and> IsEnable rt \<and> \<not> IsDeleted rt)"







text \<open>
  A database with two storage records, of which the table of the first is live and the
  table of the second is soft-deleted; a schedule of three entities under the cap 2; and the
  configuration of a cluster without resources.
\<close>

definition example_db :: MetadataDB where
  "example_db =
     \<lparr>es_storage_rows = [\<lparr>TableID = ''T1'', StorageClusterID = 1\<rparr>,
                         \<lparr>TableID = ''T2'', StorageClusterID = 1\<rparr>],
      es_storage_error = None,
      result_table_rows = [\<lparr>TableId = ''T1'', IsEnable = True, IsDeleted = False\<rparr>,
                           \<lparr>TableId = ''T2'', IsEnable = True, IsDeleted = True\<rparr>],
      result_table_error = None\<rparr>"


definition example_cfg :: Cfg where
  "example_cfg =
     \<lparr>BcsResourceGroupName = ''monitoring.bk.tencent.com'', BcsResourceVersion = ''v1beta1'',
      BcsResourceDataIdResourceKind = ''DataID'', BcsClusterBkEnvLabel = []\<rparr>"

definition example_rcSvc :: ReplaceConfigSvc where
  "example_rcSvc =
     \<lparr>GetCommonReplaceConfig = Inr \<lparr>ReplaceTypesMetric = [], ReplaceTypesDimension = []\<rparr>,
      GetClusterReplaceConfig =
        (\<lambda>clusterId. Inr \<lparr>ReplaceTypesMetric = [], ReplaceTypesDimension = []\<rparr>)\<rparr>"

definition empty_cluster :: K8s where
  "empty_cluster = \<lparr>items = [], outage = None\<rparr>"

section \<open>Verified properties\<close>

subsection \<open>Fingerprint generator\<close>

lemma avoidOverflow_le: "avoidOverflow n \<le> MaxInt32"
proof (induction n rule: avoidOverflow.induct)
  case (1 num)
  then show ?case
    by (cases "MaxInt32 < num") (simp_all add: avoidOverflow.simps [of num])
qed

lemma avoidOverflow_in_range: "n \<le> MaxInt32 \<Longrightarrow> avoidOverflow n = n"
  by (simp add: avoidOverflow.simps [of n] leD)

lemma avoidOverflow_iter:
  "\<exists>k. avoidOverflow n = ((\<lambda>x. x div 50) ^^ k) n \<and>
       (\<forall>j<k. MaxInt32 < ((\<lambda>x. x div 50) ^^ j) n)"
proof (induction n rule: avoidOverflow.induct)
  case (1 num)
  let ?f = "\<lambda>x :: 64 word. x div 50"
  show ?case
  proof (cases "MaxInt32 < num")
    case True
    from 1 [OF True] obtain k where
      k: "avoidOverflow (num div 50) = (?f ^^ k) (num div 50)"
         "\<forall>j<k. MaxInt32 < (?f ^^ j) (num div 50)"
      by blast
    have sw: "(?f ^^ Suc i) num = (?f ^^ i) (num div 50)" for i
      using funpow_swap1 [of ?f i num] by simp
    have "avoidOverflow num = (?f ^^ Suc k) num"
      using True k(1) by (simp only: sw avoidOverflow.simps [of num] if_True)
    moreover have "\<forall>j<Suc k. MaxInt32 < (?f ^^ j) num"
    proof (intro allI impI)
      fix j
      assume "j < Suc k"
      show "MaxInt32 < (?f ^^ j) num"
      proof (cases j)
        case 0
        then show ?thesis using True by simp
      next
        case (Suc i)
        then have "i < k" using \<open>j < Suc k\<close> by simp
        then show ?thesis using k(2) Suc by (simp only: sw)
      qed
    qed
    ultimately show ?thesis by blast
  next
    case False
    then have "avoidOverflow num = (?f ^^ 0) num"
      by (simp add: avoidOverflow.simps [of num])
    then show ?thesis by blast
  qed
qed

text \<open>
  Claim C6. \<open>avoidOverflow\<close> is a total function on 64-bit words (its termination is
  proved with the definition). Its result is at most the largest signed 32-bit integer
  \<open>2147483647\<close>; it is the input divided by 50 some number \<open>k\<close> of times, where every
  earlier quotient was still above the bound (so \<open>k\<close> is the first number of divisions
  that reaches the range, and \<open>k = 0\<close> for an input in range); an input that is already
  within the bound is returned unchanged.
\<close>

theorem C6_avoidOverflow_bounded:
  "avoidOverflow n \<le> MaxInt32 \<and> MaxInt32 = 2147483647 \<and>
   (\<exists>k. avoidOverflow n = ((\<lambda>x. x div 50) ^^ k) n \<and>
        (\<forall>j<k. MaxInt32 < ((\<lambda>x. x div 50) ^^ j) n)) \<and>
   (n \<le> MaxInt32 \<longrightarrow> avoidOverflow n = n)"
  using avoidOverflow_le [of n] avoidOverflow_iter [of n] avoidOverflow_in_range [of n]
    MaxInt32_def
  by blast

theorem C6_avoidOverflow_bounded_witness:
  "(7 :: 64 word) \<le> MaxInt32 \<and> avoidOverflow 7 = 7 \<and> avoidOverflow 7 \<le> MaxInt32"
  using C6_avoidOverflow_bounded [of 7] by (simp add: MaxInt32_def)

lemma fnv1a_test_vector: "Sum64 (Write New64a ''foobar'') = 9625390261332436968"
  by code_simp

text \<open>
  Claim C7. The task identifier is a function of the fields \<open>DataID\<close>, \<open>Address\<close>,
  \<open>Path\<close>, the ordered label list, \<open>Meta.Index\<close>, \<open>Namespace\<close> and \<open>Meta.Name\<close> alone:
  two targets that agree on these seven fields get the same identifier, whatever their other
  fields (among them \<open>Meta.Namespace\<close>, \<open>NodeName\<close>, \<open>Scheme\<close> and the extension slot)
  hold. Taking the same target twice gives the repeatability of a single target.
\<close>

theorem C7_generateTaskID_deterministic:
  fixes t1 :: "'a MetricTarget_scheme" and t2 :: "'b MetricTarget_scheme"
  assumes "DataID t1 = DataID t2"
    and "Address t1 = Address t2"
    and "Path t1 = Path t2"
    and "Labels t1 = Labels t2"
    and "Meta_Index (Meta t1) = Meta_Index (Meta t2)"
    and "Namespace t1 = Namespace t2"
    and "Meta_Name (Meta t1) = Meta_Name (Meta t2)"
  shows "generateTaskID t1 = generateTaskID t2"
  using assms by (simp add: generateTaskID_def)

theorem C7_generateTaskID_deterministic_witness:
  "generateTaskID
     \<lparr>Meta = \<lparr>Meta_Name = ''sm'', Meta_Kind = ''ServiceMonitor'', Meta_Namespace = ''ns1'',
              Meta_Index = 0\<rparr>,
      RelabelRule = '''', RelabelIndex = '''', NormalizeMetricName = False,
      Address = ''10.0.0.1:8080'', NodeName = ''node-a'', Scheme = ''http'', DataID = 1001,
      Namespace = ''default'', MaxTimeout = '''', MinPeriod = '''', Period = '''',
      Timeout = '''', Path = ''/metrics'', ProxyURL = '''', Username = '''', Password = '''',
      BearerTokenFile = '''', BearerToken = '''',
      Labels = [\<lparr>Label_Name = ''job'', Label_Value = ''x''\<rparr>], ExtraLabels = [],
      DimensionReplace = None, MetricReplace = None, Mask = '''', TaskType = '''',
      DisableCustomTimestamp = False\<rparr>
   = generateTaskID
     \<lparr>Meta = \<lparr>Meta_Name = ''sm'', Meta_Kind = ''PodMonitor'', Meta_Namespace = ''ns2'',
              Meta_Index = 0\<rparr>,
      RelabelRule = ''v1/node'', RelabelIndex = '''', NormalizeMetricName = True,
      Address = ''10.0.0.1:8080'', NodeName = ''node-b'', Scheme = ''https'', DataID = 1001,
      Namespace = ''default'', MaxTimeout = '''', MinPeriod = '''', Period = ''30s'',
      Timeout = '''', Path = ''/metrics'', ProxyURL = '''', Username = '''', Password = '''',
      BearerTokenFile = '''', BearerToken = '''',
      Labels = [\<lparr>Label_Name = ''job'', Label_Value = ''x''\<rparr>], ExtraLabels = [],
      DimensionReplace = None, MetricReplace = None, Mask = ''m'', TaskType = '''',
      DisableCustomTimestamp = True\<rparr>"
  by (rule C7_generateTaskID_deterministic) simp_all

subsection \<open>Cloud-region inference\<close>

lemma countOf_update:
  "countOf (AList.update k v cc) c = (if c = k then v else countOf cc c)"
  by (simp add: countOf_def update_conv')

lemma countOf_countNode:
  "countOf (countNode ipMap cc node) c =
     countOf cc c + (if ipMap (NodeIp node) = Some c then 1 else 0)"
  by (auto simp: countNode_def countOf_update split: option.splits)

lemma countOf_foldl_countNode:
  "countOf (foldl (countNode ipMap) cc nodes) c = countOf cc c + int (resolvedTo ipMap nodes c)"
  by (induction nodes arbitrary: cc) (simp_all add: resolvedTo_def countOf_countNode)

lemma countOf_makeCloudCount:
  "countOf (makeCloudCount ipMap apiNodes) c = int (resolvedTo ipMap apiNodes c)"
  by (simp add: makeCloudCount_def countOf_foldl_countNode) (simp add: countOf_def)

lemma distinct_countNode:
  "distinct (map fst cc) \<Longrightarrow> distinct (map fst (countNode ipMap cc node))"
  by (simp add: countNode_def distinct_update split: option.splits)

lemma distinct_foldl_countNode:
  "distinct (map fst cc) \<Longrightarrow> distinct (map fst (foldl (countNode ipMap) cc nodes))"
  by (induction nodes arbitrary: cc) (simp_all add: distinct_countNode)

lemma distinct_makeCloudCount: "distinct (map fst (makeCloudCount ipMap apiNodes))"
  by (simp add: makeCloudCount_def distinct_foldl_countNode)

lemma keys_countNode:
  "fst ` set (countNode ipMap cc node) =
     fst ` set cc \<union> (case ipMap (NodeIp node) of None \<Rightarrow> {} | Some c \<Rightarrow> {c})"
  by (simp add: countNode_def dom_update Un_commute split: option.splits)

lemma keys_foldl_countNode:
  "fst ` set (foldl (countNode ipMap) cc nodes) =
     fst ` set cc \<union> {c. \<exists>node \<in> set nodes. ipMap (NodeIp node) = Some c}"
proof (induction nodes arbitrary: cc)
  case Nil
  show ?case by simp
next
  case (Cons node nodes)
  show ?case
    unfolding foldl_Cons Cons.IH keys_countNode
    by (auto split: option.splits)
qed

lemma keys_makeCloudCount:
  "fst ` set (makeCloudCount ipMap apiNodes) =
     {c. \<exists>node \<in> set apiNodes. ipMap (NodeIp node) = Some c}"
  by (simp add: makeCloudCount_def keys_foldl_countNode)

lemma entry_makeCloudCount:
  assumes "(c, n) \<in> set (makeCloudCount ipMap apiNodes)"
  shows "n = int (resolvedTo ipMap apiNodes c)" and "0 < n"
proof -
  have "map_of (makeCloudCount ipMap apiNodes) c = Some n"
    using assms distinct_makeCloudCount by simp
  then have "countOf (makeCloudCount ipMap apiNodes) c = n"
    by (simp add: countOf_def)
  then show n: "n = int (resolvedTo ipMap apiNodes c)"
    by (simp add: countOf_makeCloudCount)
  have "c \<in> fst ` set (makeCloudCount ipMap apiNodes)"
    using assms by force
  then obtain node where "node \<in> set apiNodes" "ipMap (NodeIp node) = Some c"
    unfolding keys_makeCloudCount by auto
  then have "filter (\<lambda>node. ipMap (NodeIp node) = Some c) apiNodes \<noteq> []"
    by (auto simp: filter_empty_conv)
  then show "0 < n" using n by (simp add: resolvedTo_def)
qed

lemma maxStep_snd_mono: "snd acc \<le> snd (foldl maxStep acc xs)"
proof (induction xs arbitrary: acc)
  case Nil
  show ?case by simp
next
  case (Cons x xs)
  have "snd acc \<le> snd (maxStep acc x)"
    by (cases acc; cases x) (simp add: maxStep_def)
  also have "\<dots> \<le> snd (foldl maxStep (maxStep acc x) xs)" by (rule Cons.IH)
  finally show ?case by simp
qed

lemma maxStep_upper: "(k, n) \<in> set xs \<Longrightarrow> n \<le> snd (foldl maxStep acc xs)"
proof (induction xs arbitrary: acc)
  case Nil
  then show ?case by simp
next
  case (Cons x xs)
  show ?case
  proof (cases "(k, n) = x")
    case True
    have "n \<le> snd (maxStep acc x)"
      using True by (cases acc) (auto simp: maxStep_def)
    also have "\<dots> \<le> snd (foldl maxStep (maxStep acc x) xs)" by (rule maxStep_snd_mono)
    finally show ?thesis by simp
  next
    case False
    with Cons.prems have "(k, n) \<in> set xs" by simp
    then show ?thesis using Cons.IH by simp
  qed
qed

lemma maxStep_choice: "foldl maxStep acc xs = acc \<or> foldl maxStep acc xs \<in> set xs"
proof (induction xs arbitrary: acc)
  case Nil
  show ?case by simp
next
  case (Cons x xs)
  have "maxStep acc x = acc \<or> maxStep acc x = x"
    by (cases acc; cases x) (simp add: maxStep_def)
  then show ?case using Cons.IH [of "maxStep acc x"] by auto
qed

lemma maxStep_member:
  "\<exists>(k, n) \<in> set xs. snd acc < n \<Longrightarrow> foldl maxStep acc xs \<in> set xs"
proof (induction xs arbitrary: acc)
  case Nil
  then show ?case by simp
next
  case (Cons x xs)
  show ?case
  proof (cases "snd acc < snd x")
    case True
    then have "maxStep acc x = x"
      by (cases acc; cases x) (simp add: maxStep_def)
    then show ?thesis using maxStep_choice [of x xs] by auto
  next
    case False
    then have same: "maxStep acc x = acc"
      by (cases acc; cases x) (simp add: maxStep_def)
    from False Cons.prems have "\<exists>(k, n) \<in> set xs. snd acc < n" by auto
    then show ?thesis using Cons.IH [of acc] same by simp
  qed
qed

lemma maxCountCloud_nil: "maxCountCloud [] = 0"
  by (simp add: maxCountCloud_def)

lemma maxCountCloud_max:
  assumes "visited \<noteq> []" and pos: "\<forall>(k, n) \<in> set visited. 0 < n"
  shows "\<exists>m. (maxCountCloud visited, m) \<in> set visited \<and> (\<forall>(k, n) \<in> set visited. n \<le> m)"
proof -
  obtain r m where rm: "foldl maxStep (0, 0) visited = (r, m)" by (cases "foldl maxStep (0, 0) visited")
  from assms obtain x where "x \<in> set visited" by (cases visited) auto
  with pos have "\<exists>(k, n) \<in> set visited. snd (0::int, 0::int) < n" by fastforce
  then have "(r, m) \<in> set visited" using maxStep_member [of visited "(0, 0)"] rm by simp
  moreover have "\<forall>(k, n) \<in> set visited. n \<le> m"
    using maxStep_upper [of _ _ visited "(0, 0)"] rm by auto
  ultimately show ?thesis by (auto simp: maxCountCloud_def rm)
qed

text \<open>
  Claim C2. On a registration whose region attribute is already set, or whose status is
  not running, the inference returns nil, leaves the row as it is and issues no database
  update. Whatever the call does, the row after it differs from the row before in the
  region attribute at most; a set attribute keeps its value (and nothing is written); the
  attribute changes only from absent to set, on a running cluster.
\<close>

theorem C2_region_write_once:
  "((Status info \<noteq> BcsClusterStatusRunning \<or> BkCloudId info \<noteq> None) \<longrightarrow>
      UpdateBcsClusterCloudIdConfig c (Some info) db = (None, Some info, db)) \<and>
   (\<exists>e info' db'.
      UpdateBcsClusterCloudIdConfig c (Some info) db = (e, Some info', db') \<and>
      info' = info\<lparr>BkCloudId := BkCloudId info'\<rparr> \<and>
      (\<forall>x. BkCloudId info = Some x \<longrightarrow> BkCloudId info' = Some x \<and> db' = db) \<and>
      (BkCloudId info' \<noteq> BkCloudId info \<longrightarrow>
         BkCloudId info = None \<and> BkCloudId info' \<noteq> None \<and>
         Status info = BcsClusterStatusRunning))"
  by (auto simp: UpdateBcsClusterCloudIdConfig_def Let_def split: sum.splits)

theorem C2_region_write_once_witness:
  "BkCloudId (example_cluster\<lparr>BkCloudId := Some 9\<rparr>) \<noteq> None \<and>
   UpdateBcsClusterCloudIdConfig (example_collaborators example_nodes example_hosts)
     (Some (example_cluster\<lparr>BkCloudId := Some 9\<rparr>)) []
   = (None, Some (example_cluster\<lparr>BkCloudId := Some 9\<rparr>), [])"
  using C2_region_write_once [of "example_cluster\<lparr>BkCloudId := Some 9\<rparr>"
      "example_collaborators example_nodes example_hosts" "[]"]
  by simp

lemma example_makeIpMap:
  "makeIpMap (example_collaborators nodes example_hosts) 2 Map.empty (makeIpSplits example_nodes)
     = Inr example_ipMap"
  by (simp add: example_collaborators_def example_hosts_def example_host_def example_nodes_def
      example_node_def makeIpSplits_def appendIp_def recordHost_def firstField_def example_ipMap_def)

lemma example_hypotheses:
  "Status example_cluster = BcsClusterStatusRunning"
  "BkCloudId example_cluster = None"
  "FetchK8sNodeListByCluster (example_collaborators nodes hosts) (ClusterID example_cluster)
     = Inr nodes"
  "BkBizId example_cluster = 2"
  "mset (rangeCloudCount (example_collaborators nodes hosts) cloudCount) = mset cloudCount"
  by (simp_all add: example_cluster_def example_collaborators_def BcsClusterStatusRunning_def)

lemma example_tally:
  "resolvedTo example_ipMap example_nodes cloudId =
     (if cloudId = 7 then 3 else if cloudId = 9 then 2 else 0)"
  by (simp add: resolvedTo_def example_ipMap_def example_nodes_def example_node_def)

text \<open>
  Claim C4. On a running cluster with an unset region attribute, when the node listing
  and every host lookup succeed and at least one node address resolves to a host record,
  the inference assigns (and writes) a region that at least one node resolves to and that
  no other region beats in the tally, whatever the order in which the runtime visits the
  tally. With three nodes in region 7 and two in region 9 the region assigned is 7.
\<close>

theorem C4_majority_region:
  assumes "Status info = BcsClusterStatusRunning"
    and "BkCloudId info = None"
    and "FetchK8sNodeListByCluster c (ClusterID info) = Inr apiNodes"
    and "makeIpMap c (BkBizId info) Map.empty (makeIpSplits apiNodes) = Inr ipMap"
    and "\<exists>node \<in> set apiNodes. ipMap (NodeIp node) \<noteq> None"
    and "\<And>cloudCount. mset (rangeCloudCount c cloudCount) = mset cloudCount"
  shows "\<exists>r. UpdateBcsClusterCloudIdConfig c (Some info) db =
       (Update c (info\<lparr>BkCloudId := Some r\<rparr>) [Column_BkCloudId],
        Some (info\<lparr>BkCloudId := Some r\<rparr>),
        db @ [\<lparr>row = info\<lparr>BkCloudId := Some r\<rparr>, columns = [Column_BkCloudId]\<rparr>]) \<and>
     0 < resolvedTo ipMap apiNodes r \<and>
     (\<forall>cloudId. resolvedTo ipMap apiNodes cloudId \<le> resolvedTo ipMap apiNodes r)"
proof -
  let ?cc = "makeCloudCount ipMap apiNodes"
  let ?visited = "rangeCloudCount c ?cc"
  let ?r = "maxCountCloud ?visited"
  have perm: "set ?visited = set ?cc"
    using assms(6) [of ?cc] by (rule mset_eq_setD)
  from assms(5) have "fst ` set ?cc \<noteq> {}"
    unfolding keys_makeCloudCount by auto
  then have nonempty: "?visited \<noteq> []" using perm by auto
  have pos: "\<forall>(k, n) \<in> set ?visited. 0 < n"
    using perm entry_makeCloudCount(2) by auto
  from maxCountCloud_max [OF nonempty pos] obtain m where
    m: "(?r, m) \<in> set ?cc" "\<forall>(k, n) \<in> set ?cc. n \<le> m"
    using perm by auto
  have m_eq: "m = int (resolvedTo ipMap apiNodes ?r)" and m_pos: "0 < m"
    using entry_makeCloudCount [OF m(1)] by simp_all
  have top: "resolvedTo ipMap apiNodes cloudId \<le> resolvedTo ipMap apiNodes ?r" for cloudId
  proof (cases "cloudId \<in> fst ` set ?cc")
    case True
    then obtain n where n: "(cloudId, n) \<in> set ?cc" by auto
    then have "n \<le> m" using m(2) by auto
    then show ?thesis using entry_makeCloudCount(1) [OF n] m_eq by simp
  next
    case False
    then have "\<forall>node \<in> set apiNodes. ipMap (NodeIp node) \<noteq> Some cloudId"
      unfolding keys_makeCloudCount by auto
    then have "resolvedTo ipMap apiNodes cloudId = 0"
      by (simp add: resolvedTo_def)
    then show ?thesis by simp
  qed
  have "UpdateBcsClusterCloudIdConfig c (Some info) db =
       (Update c (info\<lparr>BkCloudId := Some ?r\<rparr>) [Column_BkCloudId],
        Some (info\<lparr>BkCloudId := Some ?r\<rparr>),
        db @ [\<lparr>row = info\<lparr>BkCloudId := Some ?r\<rparr>, columns = [Column_BkCloudId]\<rparr>])"
    using assms(1-4) by (simp add: UpdateBcsClusterCloudIdConfig_def Let_def)
  moreover have "0 < resolvedTo ipMap apiNodes ?r" using m_eq m_pos by simp
  ultimately show ?thesis using top by blast
qed

theorem C4_majority_region_witness:
  "resolvedTo example_ipMap example_nodes 7 = 3 \<and>
   resolvedTo example_ipMap example_nodes 9 = 2 \<and>
   UpdateBcsClusterCloudIdConfig (example_collaborators example_nodes example_hosts)
     (Some example_cluster) []
   = (None, Some (example_cluster\<lparr>BkCloudId := Some 7\<rparr>),
      [\<lparr>row = example_cluster\<lparr>BkCloudId := Some 7\<rparr>, columns = [Column_BkCloudId]\<rparr>])"
proof -
  let ?c = "example_collaborators example_nodes example_hosts"
  have ipMap: "makeIpMap ?c (BkBizId example_cluster) Map.empty (makeIpSplits example_nodes)
      = Inr example_ipMap"
    by (simp only: example_hypotheses(4) example_makeIpMap)
  have some: "\<exists>node \<in> set example_nodes. example_ipMap (NodeIp node) \<noteq> None"
    by (simp add: example_nodes_def example_node_def example_ipMap_def)
  from C4_majority_region [of example_cluster ?c example_nodes example_ipMap "[]",
      OF example_hypotheses(1) example_hypotheses(2) example_hypotheses(3) ipMap some
        example_hypotheses(5)]
  obtain r where
    r: "UpdateBcsClusterCloudIdConfig ?c (Some example_cluster) [] =
         (Update ?c (example_cluster\<lparr>BkCloudId := Some r\<rparr>) [Column_BkCloudId],
          Some (example_cluster\<lparr>BkCloudId := Some r\<rparr>),
          [] @ [\<lparr>row = example_cluster\<lparr>BkCloudId := Some r\<rparr>, columns = [Column_BkCloudId]\<rparr>])"
      and top: "\<forall>cloudId. resolvedTo example_ipMap example_nodes cloudId
                  \<le> resolvedTo example_ipMap example_nodes r"
    by blast
  from top have "resolvedTo example_ipMap example_nodes 7 \<le> resolvedTo example_ipMap example_nodes r"
    by blast
  then have "r = 7"
    by (simp add: example_tally split: if_splits)
  with r show ?thesis
    by (simp add: example_tally example_collaborators_def)
qed

text \<open>
  Claim C10. On a running cluster with an unset region attribute, when the node listing
  and every host lookup succeed and no node address resolves to a host record, the tally
  is empty and the inference sets the attribute to 0: the row behind the pointer has it,
  the database update of the region column is issued with it, and the call returns what
  that update returns.
\<close>

theorem C10_empty_tally_default:
  assumes "Status info = BcsClusterStatusRunning"
    and "BkCloudId info = None"
    and "FetchK8sNodeListByCluster c (ClusterID info) = Inr apiNodes"
    and "makeIpMap c (BkBizId info) Map.empty (makeIpSplits apiNodes) = Inr ipMap"
    and "\<forall>node \<in> set apiNodes. ipMap (NodeIp node) = None"
    and "\<And>cloudCount. mset (rangeCloudCount c cloudCount) = mset cloudCount"
  shows "UpdateBcsClusterCloudIdConfig c (Some info) db =
     (Update c (info\<lparr>BkCloudId := Some 0\<rparr>) [Column_BkCloudId],
      Some (info\<lparr>BkCloudId := Some 0\<rparr>),
      db @ [\<lparr>row = info\<lparr>BkCloudId := Some 0\<rparr>, columns = [Column_BkCloudId]\<rparr>])"
proof -
  have "fst ` set (makeCloudCount ipMap apiNodes) = {}"
    using assms(5) by (simp add: keys_makeCloudCount)
  then have empty: "makeCloudCount ipMap apiNodes = []" by simp
  have "mset (rangeCloudCount c []) = mset ([] :: (int \<times> int) list)" by (rule assms(6))
  then have "rangeCloudCount c [] = []" by simp
  then show ?thesis
    using assms(1-4) empty
    by (simp add: UpdateBcsClusterCloudIdConfig_def Let_def maxCountCloud_nil)
qed

theorem C10_empty_tally_default_witness:
  "makeCloudCount Map.empty example_nodes = [] \<and>
   UpdateBcsClusterCloudIdConfig (example_collaborators example_nodes []) (Some example_cluster) []
   = (None, Some (example_cluster\<lparr>BkCloudId := Some 0\<rparr>),
      [\<lparr>row = example_cluster\<lparr>BkCloudId := Some 0\<rparr>, columns = [Column_BkCloudId]\<rparr>])"
proof -
  let ?c = "example_collaborators example_nodes []"
  have ipMap: "makeIpMap ?c (BkBizId example_cluster) Map.empty (makeIpSplits example_nodes)
      = Inr Map.empty"
    by (simp add: example_collaborators_def example_nodes_def example_node_def makeIpSplits_def
        appendIp_def)
  have none: "\<forall>node \<in> set example_nodes. Map.empty (NodeIp node) = (None :: int option)"
    by simp
  from C10_empty_tally_default [of example_cluster ?c example_nodes Map.empty "[]",
      OF example_hypotheses(1) example_hypotheses(2) example_hypotheses(3) ipMap none
        example_hypotheses(5)]
  moreover have "makeCloudCount Map.empty example_nodes = []"
    by (simp add: makeCloudCount_def countNode_def example_nodes_def)
  ultimately show ?thesis
    by (simp add: example_collaborators_def)
qed

subsection \<open>Refresh pass for the search-engine storage\<close>

lemma foldl_tableIdEsStorageMap:
  "distinct (map TableID xs) \<Longrightarrow> \<forall>x \<in> set xs. m (TableID x) = None \<Longrightarrow>
   foldl (\<lambda>m esStorage. m(TableID esStorage \<mapsto> esStorage)) m xs k = Some ess \<longleftrightarrow>
     m k = Some ess \<or> (ess \<in> set xs \<and> TableID ess = k)"
proof (induction xs arbitrary: m)
  case Nil
  show ?case by simp
next
  case (Cons x xs)
  have d: "distinct (map TableID xs)" using Cons.prems(1) by simp
  have fresh: "\<forall>y \<in> set xs. (m(TableID x \<mapsto> x)) (TableID y) = None"
    using Cons.prems by (auto simp: image_iff)
  show ?case
    unfolding foldl_Cons Cons.IH [OF d fresh]
    using Cons.prems by auto
qed

lemma makeTableIdEsStorageMap_Some:
  "distinct (map TableID allEsStorageList) \<Longrightarrow>
   makeTableIdEsStorageMap allEsStorageList k = Some ess \<longleftrightarrow>
     ess \<in> set allEsStorageList \<and> TableID ess = k"
  unfolding makeTableIdEsStorageMap_def
  by (subst foldl_tableIdEsStorageMap) simp_all

lemma foldl_needUpdate:
  "set (foldl (\<lambda>acc rt. case m (TableId rt) of Some esStorage \<Rightarrow> acc @ [esStorage] | None \<Rightarrow> acc)
          acc rts) =
     set acc \<union> {ess. \<exists>rt \<in> set rts. m (TableId rt) = Some ess}"
  by (induction rts arbitrary: acc) (auto split: option.splits)

lemma set_makeNeedUpdateEsStorageList:
  "set (makeNeedUpdateEsStorageList m rts) = {ess. \<exists>rt \<in> set rts. m (TableId rt) = Some ess}"
  unfolding makeNeedUpdateEsStorageList_def by (simp add: foldl_needUpdate)

lemma retained_set:
  assumes "distinct (map TableID allEsStorageList)"
  shows "set (makeNeedUpdateEsStorageList (makeTableIdEsStorageMap allEsStorageList)
           (filter (\<lambda>rt. IsEnable rt \<and> \<not> IsDeleted rt \<and>
                          TableId rt \<in> set (map TableID allEsStorageList)) rows)) =
         {ess \<in> set allEsStorageList. liveTable rows (TableID ess)}"
  unfolding set_makeNeedUpdateEsStorageList
  by (auto simp: makeTableIdEsStorageMap_Some [OF assms] liveTable_def)

lemma example_db_rows:
  "es_storage_error example_db = None" "result_table_error example_db = None"
  "distinct (map TableID (es_storage_rows example_db))"
  by (simp_all add: example_db_def)

text \<open>
  Claim C8. When both queries succeed and the storage records are keyed by their table
  identifier (no two records share one), the records that the pass dispatches are exactly
  the candidates whose table identifier is live, that is, belongs to a result table row that
  is enabled and not soft-deleted. The result-table query is the one the source issues
  (enabled, not deleted, identifier among the candidates'); the limit is positive so that
  the dispatch takes place.
\<close>

theorem C8_filter_retains_live:
  assumes "es_storage_error db = None"
    and "result_table_error db = None"
    and "distinct (map TableID (es_storage_rows db))"
    and "0 < goroutineLimit"
  shows "set (map fst (dispatched (RefreshESStorage db ManageESStorage goroutineLimit))) =
     {ess \<in> set (es_storage_rows db). liveTable (result_table_rows db) (TableID ess)}"
proof -
  let ?all = "es_storage_rows db"
  let ?rts = "filter (\<lambda>rt. IsEnable rt \<and> \<not> IsDeleted rt \<and> TableId rt \<in> set (map TableID ?all))
                (result_table_rows db)"
  let ?need = "makeNeedUpdateEsStorageList (makeTableIdEsStorageMap ?all) ?rts"
  have need: "set ?need = {ess \<in> set ?all. liveTable (result_table_rows db) (TableID ess)}"
    by (rule retained_set [OF assms(3)])
  show ?thesis
  proof (cases "?all = []")
    case True
    then show ?thesis
      using assms(1) by (simp add: RefreshESStorage_def ESStorage_All_def)
  next
    case False
    show ?thesis
    proof (cases "?need = []")
      case True
      then have "{ess \<in> set ?all. liveTable (result_table_rows db) (TableID ess)} = {}"
        using need by simp
      then show ?thesis
        using assms(1,2) False True
        by (simp add: RefreshESStorage_def ESStorage_All_def ResultTable_query_def Let_def)
    next
      case nonempty: False
      have "map fst (dispatched (RefreshESStorage db ManageESStorage goroutineLimit)) = ?need"
        using assms(1,2,4) False nonempty
        by (simp add: RefreshESStorage_def ESStorage_All_def ResultTable_query_def Let_def comp_def)
      then show ?thesis using need by simp
    qed
  qed
qed

lemma example_db_live:
  "liveTable (result_table_rows example_db) ''T1''"
  "\<not> liveTable (result_table_rows example_db) ''T2''"
  by (simp_all add: liveTable_def example_db_def)

lemma example_db_retained:
  "{ess \<in> set (es_storage_rows example_db).
      liveTable (result_table_rows example_db) (TableID ess)} =
   {\<lparr>TableID = ''T1'', StorageClusterID = 1\<rparr>}"
proof -
  have rows: "es_storage_rows example_db =
      [\<lparr>TableID = ''T1'', StorageClusterID = 1\<rparr>, \<lparr>TableID = ''T2'', StorageClusterID = 1\<rparr>]"
    by (simp add: example_db_def)
  show ?thesis
    unfolding rows using example_db_live by auto
qed

theorem C8_filter_retains_live_witness:
  "liveTable (result_table_rows example_db) ''T1'' \<and>
   \<not> liveTable (result_table_rows example_db) ''T2'' \<and>
   set (map fst (dispatched (RefreshESStorage example_db (\<lambda>ess. Succeeded) 5))) =
     {\<lparr>TableID = ''T1'', StorageClusterID = 1\<rparr>}"
proof -
  have "(0::int) < 5" by simp
  from C8_filter_retains_live [OF example_db_rows this, of "\<lambda>ess. Succeeded"]
  have "set (map fst (dispatched (RefreshESStorage example_db (\<lambda>ess. Succeeded) 5))) =
     {ess \<in> set (es_storage_rows example_db).
        liveTable (result_table_rows example_db) (TableID ess)}" .
  then have "set (map fst (dispatched (RefreshESStorage example_db (\<lambda>ess. Succeeded) 5))) =
     {\<lparr>TableID = ''T1'', StorageClusterID = 1\<rparr>}"
    by (simp only: example_db_retained)
  with example_db_live show ?thesis by blast
qed











subsection \<open>The dispatch loop\<close>






















text \<open>Under the limit 0, with an entity to dispatch, no schedule takes a single step.\<close>

lemma zero_cap_stuck:
  "run 0 schedule (start 0 (e # entities)) = Some s \<Longrightarrow> schedule = []"
proof (cases schedule)
  case Nil
  then show ?thesis by simp
next
  case (Cons a as)
  assume r: "run 0 schedule (start 0 (e # entities)) = Some s"
  have "step 0 a (start 0 (e # entities)) = None"
    by (cases a) (simp_all add: start_def halted_def phaseOf_def)
  with r Cons show ?thesis by simp
qed




subsection \<open>Resource comparison and refresh\<close>

text \<open>
  The conversion of a data id to \<open>int64\<close> is the signed reading of the 64-bit word.
\<close>

lemma int64_of_uint_examples:
  "int64_of_uint 1001 = 1001"
  "int64_of_uint 9223372036854775807 = 9223372036854775807"
  "int64_of_uint 9223372036854775808 = - 9223372036854775808"
  "int64_of_uint 18446744073709551615 = - 1"
  by (simp_all add: int64_of_uint_def)
lemma int64_of_uint_sint: "int64_of_uint x = sint (word_of_nat x :: 64 word)"
proof -
  have u: "uint (word_of_nat x :: 64 word) = int x mod 18446744073709551616"
    by (simp add: uint_word_of_int unsigned_of_nat take_bit_eq_mod zmod_int)
  show ?thesis
    unfolding int64_of_uint_def Let_def u [symmetric]
proof -
    let ?w = "word_of_nat x :: 64 word"
    have b: "0 \<le> uint ?w" "uint ?w < 18446744073709551616"
      using uint_lt2p [of ?w] by simp_all
    have hi: "(u + 9223372036854775808) mod 18446744073709551616 = u - 9223372036854775808"
      if "9223372036854775808 \<le> u" "u < 18446744073709551616" for u :: int
    proof -
      have "(u + 9223372036854775808) mod 18446744073709551616 =
            ((u - 9223372036854775808) + 18446744073709551616) mod 18446744073709551616"
        by (simp add: add.commute)
      also have "\<dots> = (u - 9223372036854775808) mod 18446744073709551616"
        by (rule mod_add_self2)
      also have "\<dots> = u - 9223372036854775808"
        using that by (intro mod_pos_pos_trivial) simp_all
      finally show ?thesis .
    qed
    have "sint ?w = (if uint ?w < 9223372036854775808 then uint ?w
                     else uint ?w - 18446744073709551616)"
      using b hi [of "uint ?w"]
      by (simp add: sint_uint signed_take_bit_eq_take_bit_shift take_bit_eq_mod)
    then show "(if uint ?w < 9223372036854775808 then uint ?w else uint ?w - 18446744073709551616)
        = sint ?w" by simp
  qed
qed

text \<open>
  On plain trees the comparison does not panic and computes the coverage of the spec; a
  key that only the observed tree has does not change the result on any trees.
\<close>

lemma sameValue_GMap: "sameValue (GMap m) (GMap m') = covered m m'"
  by (simp add: covered_def)

lemma plain_cases:
  assumes "plain v"
  obtains (str) s where "v = GString s" | (int) i where "v = GInt64 i"
    | (bool) b where "v = GBool b" | (map) m where "v = GMap m" "list_all (\<lambda>kv. plain (snd kv)) m"
  using assms by (cases v) auto

lemma interface_neq_scalar:
  "TypeOf v = Some t \<Longrightarrow> comparable t \<Longrightarrow> interface_neq v val = Inr (v \<noteq> val)"
  by (cases v; cases val) (auto simp: interface_neq_def)

lemma covered_Cons:
  "covered ((k, v) # source) target =
     (case map_of target k of None \<Rightarrow> False | Some val \<Rightarrow> sameValue v val \<and> covered source target)"
  by (simp add: covered_def split: option.splits)

lemma isSameMapConfig_plain:
  "list_all (\<lambda>kv. plain (snd kv)) source \<Longrightarrow> list_all (\<lambda>kv. plain (snd kv)) target \<Longrightarrow>
   isSameMapConfig source target = Inr (covered source target)"
proof (induction source target rule: isSameMapConfig.induct)
  case (1 target)
  show ?case by (simp add: covered_def)
next
  case (2 k v source target)
  from "2.prems" have pv: "plain v" and ps: "list_all (\<lambda>kv. plain (snd kv)) source"
    and pt: "list_all (\<lambda>kv. plain (snd kv)) target" by simp_all
  show ?case
  proof (cases "map_of target k")
    case None
    then show ?thesis by (simp add: covered_Cons)
  next
    case (Some val)
    then have "(k, val) \<in> set target" by (rule map_of_SomeD)
    with pt have pval: "plain val" by (auto simp: list_all_iff)
    show ?thesis
    proof (cases "\<exists>m. v = GMap m")
      case True
      then obtain m where v: "v = GMap m" ..
      with pv have pm: "list_all (\<lambda>kv. plain (snd kv)) m" by simp
      have kv: "TypeOf_Kind v = Inr KMap" by (simp add: v TypeOf_Kind_def)
      show ?thesis
      proof (cases "\<exists>m'. val = GMap m'")
        case True
        then obtain m' where val: "val = GMap m'" ..
        with pval have pm': "list_all (\<lambda>kv. plain (snd kv)) m'" by simp
        have kval: "TypeOf_Kind val = Inr KMap" by (simp add: val TypeOf_Kind_def)
        have am: "asMapInterface v = m" "asMapInterface val = m'" by (simp_all add: v val)
        have sv: "sameValue v val = covered m m'" by (simp add: v val covered_def)
        have inner: "isSameMapConfig (asMapInterface v) (asMapInterface val) = Inr (covered m m')"
          using "2.IH"(4) [OF Some kv refl kval] pm pm' by (simp add: am)
        show ?thesis
        proof (cases "covered m m'")
          case True
          have "isSameMapConfig source target = Inr (covered source target)"
            using "2.IH"(5) [OF Some kv refl kval _ _ _ ps pt, of True] inner True
            by simp
          then show ?thesis
            using Some kv kval inner True sv
            by (simp add: covered_Cons del: sameValue.simps)
        next
          case False
          then show ?thesis
            using Some kv kval inner sv
            by (simp add: covered_Cons del: sameValue.simps)
        qed
      next
        case False
        with pval obtain kd where kval: "TypeOf_Kind val = Inr kd" "kd \<noteq> KMap"
          by (cases val) (auto simp: TypeOf_Kind_def)
        from False have "\<not> sameValue v val" by (cases val) (auto simp: v)
        then show ?thesis
          using Some kv kval by (simp add: covered_Cons del: sameValue.simps)
      qed
    next
      case False
      with pv obtain t where t: "TypeOf v = Some t" "comparable t" "Kind t \<noteq> KMap"
        by (cases v) auto
      then have kv: "TypeOf_Kind v = Inr (Kind t)" by (simp add: TypeOf_Kind_def)
      have neq: "interface_neq v val = Inr (v \<noteq> val)"
        by (rule interface_neq_scalar [OF t(1,2)])
      from False have sv: "sameValue v val = (v = val)" by (cases v) auto
      show ?thesis
      proof (cases "v = val")
        case True
        have neq': "interface_neq v val = Inr False" using neq True by simp
        have "isSameMapConfig source target = Inr (covered source target)"
        proof (cases "Kind t")
          case KString
          from "2.IH"(1) [OF Some kv KString neq' _ ps pt] show ?thesis by simp
        next
          case KInt64
          from "2.IH"(2) [OF Some kv KInt64 neq' _ ps pt] show ?thesis by simp
        next
          case KBool
          from "2.IH"(3) [OF Some kv KBool neq' _ ps pt] show ?thesis by simp
        next
          case KMap
          with t(3) show ?thesis by simp
        next
          case KSlice
          from "2.IH"(6) [OF Some kv KSlice neq' _ ps pt] show ?thesis by simp
        qed
        then show ?thesis
          using Some kv neq True sv t(3)
          by (cases "Kind t") (simp_all add: covered_Cons del: sameValue.simps)
      next
        case False
        then show ?thesis
          using Some kv neq sv t(3)
          by (cases "Kind t") (simp_all add: covered_Cons del: sameValue.simps)
      qed
    qed
  qed
qed

lemma isSameMapConfig_lookup_cong:
  "\<forall>k \<in> fst ` set source. map_of target k = map_of target' k \<Longrightarrow>
   isSameMapConfig source target = isSameMapConfig source target'"
proof (induction source)
  case Nil
  show ?case by simp
next
  case (Cons kv source)
  obtain k v where kv: "kv = (k, v)" by (cases kv)
  from Cons.prems have same: "map_of target k = map_of target' k" by (simp add: kv)
  from Cons.prems have ih: "isSameMapConfig source target = isSameMapConfig source target'"
    by (intro Cons.IH) simp
  show ?case by (simp only: kv isSameMapConfig.simps(2) same ih)
qed

lemma isSameMapConfig_extra_key:
  "k' \<notin> fst ` set source \<Longrightarrow>
   isSameMapConfig source ((k', x) # target) = isSameMapConfig source target"
  by (rule isSameMapConfig_lookup_cong) auto

text \<open>
  Claim C3, at an input where the source departs from it. The desired tree holds a
  \<^verbatim>\<open>map[string]string\<close> under \<open>labels\<close>, as the document of \<^verbatim>\<open>makeConfig\<close> does under
  \<^verbatim>\<open>spec.labels\<close>; the observed tree holds a different value for the one key of that map.
  Both values have kind \<open>Map\<close>, the type assertion on the desired side fails and yields the
  nil map, and the comparison is that of an empty tree: the trees are reported as the same.
  The second part is the same through \<^verbatim>\<open>makeConfig\<close>: the document made for one cluster is
  reported to be the same as the stored document of another cluster and business.
\<close>

theorem C3_typed_map_not_compared:
  "isSameMapConfig
     [(''labels'', GStrMap [(''bk_biz_id'', ''2'')])]
     [(''labels'', GMap [(''bk_biz_id'', GString ''3'')])] = Inr True \<and>
   (case makeConfig example_cfg example_rcSvc example_cluster (hd bcsDatasourceRegisterInfo) of
      Inl e \<Rightarrow> False
    | Inr desired \<Rightarrow>
        (case makeConfig example_cfg example_rcSvc
                (example_cluster\<lparr>ClusterID := ''BCS-K8S-00002'', BkBizId := 3\<rparr>)
                (hd bcsDatasourceRegisterInfo) of
           Inl e \<Rightarrow> False
         | Inr other \<Rightarrow>
             stored desired \<noteq> stored other \<and>
             isSameResourceConfig desired (stored other) = Inr True))"
  by code_simp

text \<open>
  Claim C1, at an input where the source departs from it. On a cluster without any
  resource, with every call succeeding, one refresh returns nil after it has created the
  resource of the usage it visits first (here the first of the catalog): the resources of the
  two other usages are not there after the pass.
\<close>

theorem C1_refresh_stops_after_first_create:
  "fst (RefreshCommonResource example_cfg example_rcSvc bcsDatasourceRegisterInfo
          (Some example_cluster) empty_cluster) = Returned None \<and>
   map GetName (items (snd (RefreshCommonResource example_cfg example_rcSvc
          bcsDatasourceRegisterInfo (Some example_cluster) empty_cluster)))
     = [''k8smetricdataid''] \<and>
   GetK8sResource (snd (RefreshCommonResource example_cfg example_rcSvc
          bcsDatasourceRegisterInfo (Some example_cluster) empty_cluster)) ''custommetricdataid''
     = Inl (StatusError 404) \<and>
   GetK8sResource (snd (RefreshCommonResource example_cfg example_rcSvc
          bcsDatasourceRegisterInfo (Some example_cluster) empty_cluster)) ''k8seventdataid''
     = Inl (StatusError 404)"
  by code_simp

end
